theory Spec2Isabelle
  imports Complex_Main
begin

section \<open>JavaScript numbers\<close>

text \<open>
  The simulator computes fees and amounts with JavaScript numbers, which are IEEE 754
  binary64 values. A number is \<open>NaN\<close>, an infinity with its sign, or a finite value given
  by its sign (\<open>True\<close> for negative) and its magnitude, a non-negative rational; the sign
  is kept apart so that \<open>-0\<close> is a value of its own.
\<close>

datatype jsnum = JNaN | JInf bool | JFin bool rat

definition pow2 :: "int \<Rightarrow> rat" where
  "pow2 e = (if 0 \<le> e then 2 ^ nat e else 1 / 2 ^ nat (- e))"

definition pow10 :: "int \<Rightarrow> rat" where
  "pow10 e = (if 0 \<le> e then 10 ^ nat e else 1 / 10 ^ nat (- e))"

text \<open>
  \<open>ilog2 q\<close> is the binade of a positive rational: \<open>2^(ilog2 q) \<le> q < 2^(ilog2 q + 1)\<close>.
  It is found by halving a magnitude of 1 or more, and by doubling a smaller one.
\<close>

function ilog2_up :: "rat \<Rightarrow> int" where
  "ilog2_up q = (if q < 2 then 0 else 1 + ilog2_up (q / 2))"
  by pat_completeness auto
termination
proof (relation "measure (\<lambda>q. nat \<lfloor>q\<rfloor>)")
  show "wf (measure (\<lambda>q::rat. nat \<lfloor>q\<rfloor>))" by simp
next
  fix q :: rat
  assume "\<not> q < 2"
  then have "q / 2 \<le> q - 1" by simp
  then have "\<lfloor>q / 2\<rfloor> \<le> \<lfloor>q - 1\<rfloor>" by (rule floor_mono)
  moreover have "1 \<le> \<lfloor>q\<rfloor>" using \<open>\<not> q < 2\<close> by (simp add: le_floor_iff)
  ultimately show "(q / 2, q) \<in> measure (\<lambda>q. nat \<lfloor>q\<rfloor>)" by simp
qed

function ilog2_down :: "rat \<Rightarrow> int" where
  "ilog2_down q = (if q \<le> 0 \<or> 1 \<le> q then 0 else ilog2_down (2 * q) - 1)"
  by pat_completeness auto
termination
proof (relation "measure (\<lambda>q. nat \<lceil>1 / q\<rceil>)")
  show "wf (measure (\<lambda>q::rat. nat \<lceil>1 / q\<rceil>))" by simp
next
  fix q :: rat
  assume a: "\<not> (q \<le> 0 \<or> 1 \<le> q)"
  then have q: "0 < q" "q < 1" by auto
  then have "1 < 1 / q" by simp
  then have "1 / q / 2 \<le> 1 / q - 1 / 2" by simp
  have "\<lceil>1 / (2 * q)\<rceil> < \<lceil>1 / q\<rceil>"
  proof -
    have "1 / (2 * q) = (1 / q) / 2" by simp
    also have "\<dots> \<le> of_int \<lceil>1 / q\<rceil> / 2" by (simp add: divide_right_mono)
    finally have *: "1 / (2 * q) \<le> of_int \<lceil>1 / q\<rceil> / 2" .
    have "2 \<le> \<lceil>1 / q\<rceil>" using \<open>1 < 1 / q\<close> by (simp add: le_ceiling_iff)
    then have "(of_int \<lceil>1 / q\<rceil> :: rat) / 2 \<le> of_int (\<lceil>1 / q\<rceil> - 1)" by simp
    with * have "1 / (2 * q) \<le> of_int (\<lceil>1 / q\<rceil> - 1)" by linarith
    then have "\<lceil>1 / (2 * q)\<rceil> \<le> \<lceil>1 / q\<rceil> - 1" by (subst ceiling_le_iff)
    then show ?thesis by linarith
  qed
  moreover have "0 < \<lceil>1 / q\<rceil>" using q by (simp add: less_ceiling_iff)
  ultimately show "(2 * q, q) \<in> measure (\<lambda>q. nat \<lceil>1 / q\<rceil>)" by simp
qed

declare ilog2_up.simps [simp del] ilog2_down.simps [simp del]

definition ilog2 :: "rat \<Rightarrow> int" where
  "ilog2 q = (if 1 \<le> q then ilog2_up q else ilog2_down q)"

text \<open>Rounding to the nearest integer, ties to the even one.\<close>

definition round_half_even :: "rat \<Rightarrow> int" where
  "round_half_even r =
     (let f = \<lfloor>r\<rfloor>; d = r - of_int f
      in if d < 1 / 2 then f
         else if 1 / 2 < d then f + 1
         else if even f then f else f + 1)"

text \<open>
  The exponent of the unit in the last place of a positive magnitude: 53 significant
  bits, and \<open>2^-1074\<close> for the subnormal range.
\<close>

definition ulp_exp :: "rat \<Rightarrow> int" where
  "ulp_exp q = max (ilog2 q - 52) (- 1074)"

text \<open>
  \<open>round_double q\<close> rounds a non-negative magnitude to the nearest binary64 magnitude
  (ties to even); \<open>None\<close> is the overflow to infinity.
\<close>

definition round_double :: "rat \<Rightarrow> rat option" where
  "round_double q =
     (if q \<le> 0 then Some 0
      else let e = ulp_exp q;
               r = of_int (round_half_even (q / pow2 e)) * pow2 e
           in if r < pow2 1024 then Some r else None)"


definition of_magnitude :: "bool \<Rightarrow> rat \<Rightarrow> jsnum" where
  "of_magnitude s q = (case round_double q of None \<Rightarrow> JInf s | Some r \<Rightarrow> JFin s r)"

text \<open>The signed value of a finite number.\<close>

definition signed :: "bool \<Rightarrow> rat \<Rightarrow> rat" where
  "signed s m = (if s then - m else m)"

fun js_neg :: "jsnum \<Rightarrow> jsnum" where
  "js_neg JNaN = JNaN"
| "js_neg (JInf s) = JInf (\<not> s)"
| "js_neg (JFin s m) = JFin (\<not> s) m"

fun js_add :: "jsnum \<Rightarrow> jsnum \<Rightarrow> jsnum" where
  "js_add JNaN _ = JNaN"
| "js_add _ JNaN = JNaN"
| "js_add (JInf s) (JInf t) = (if s = t then JInf s else JNaN)"
| "js_add (JInf s) (JFin _ _) = JInf s"
| "js_add (JFin _ _) (JInf t) = JInf t"
| "js_add (JFin s m) (JFin t n) =
     (let v = signed s m + signed t n
      in if v = 0 then JFin (s \<and> t) 0 else of_magnitude (v < 0) \<bar>v\<bar>)"

definition js_sub :: "jsnum \<Rightarrow> jsnum \<Rightarrow> jsnum" where
  "js_sub x y = js_add x (js_neg y)"

fun js_mul :: "jsnum \<Rightarrow> jsnum \<Rightarrow> jsnum" where
  "js_mul JNaN _ = JNaN"
| "js_mul _ JNaN = JNaN"
| "js_mul (JInf s) (JInf t) = JInf (s \<noteq> t)"
| "js_mul (JInf s) (JFin t n) = (if n = 0 then JNaN else JInf (s \<noteq> t))"
| "js_mul (JFin s m) (JInf t) = (if m = 0 then JNaN else JInf (s \<noteq> t))"
| "js_mul (JFin s m) (JFin t n) = of_magnitude (s \<noteq> t) (m * n)"

text \<open>The comparison \<open>x <= y\<close>: false as soon as one side is \<open>NaN\<close>.\<close>

fun js_le :: "jsnum \<Rightarrow> jsnum \<Rightarrow> bool" where
  "js_le JNaN _ = False"
| "js_le _ JNaN = False"
| "js_le (JInf s) (JInf t) = (s \<or> \<not> t)"
| "js_le (JInf s) (JFin _ _) = s"
| "js_le (JFin _ _) (JInf t) = (\<not> t)"
| "js_le (JFin s m) (JFin t n) = (signed s m \<le> signed t n)"

text \<open>A number is falsy when it is \<open>NaN\<close>, \<open>+0\<close> or \<open>-0\<close>.\<close>

fun js_truthy :: "jsnum \<Rightarrow> bool" where
  "js_truthy JNaN = False"
| "js_truthy (JInf _) = True"
| "js_truthy (JFin _ m) = (m \<noteq> 0)"

text \<open>A decimal literal \<open>n\<close>\<open>e\<close>\<open>k\<close> of the source, as the number it denotes.\<close>

definition js_lit :: "int \<Rightarrow> int \<Rightarrow> jsnum" where
  "js_lit n k = of_magnitude (n < 0) (\<bar>of_int n\<bar> * pow10 k)"

section \<open>Strings of the JavaScript runtime\<close>

text \<open>
  Strings are byte strings (UTF-8). Every character the simulator looks for (the colon,
  the digits, the sign, the letters of \<open>near:\<close>) is ASCII, so splitting and
  prefix tests on bytes agree with the ones on UTF-16 code units. The functions of the
  runtime that the simulator calls (\<open>parseFloat\<close>, \<open>toFixed\<close>, \<open>toString\<close>,
  \<open>split\<close>, \<open>startsWith\<close>) follow their ECMAScript definitions.
\<close>

definition is_digit :: "char \<Rightarrow> bool" where
  "is_digit c = (c \<in> set ''0123456789'')"

definition digit_val :: "char \<Rightarrow> nat" where
  "digit_val c = of_char c - 48"

definition digits_val :: "string \<Rightarrow> nat" where
  "digits_val ds = foldl (\<lambda>a c. 10 * a + digit_val c) 0 ds"

definition digit_char :: "nat \<Rightarrow> char" where
  "digit_char d = ''0123456789'' ! (d mod 10)"

fun show_nat :: "nat \<Rightarrow> string" where
  "show_nat n = (if n < 10 then [digit_char n] else show_nat (n div 10) @ [digit_char (n mod 10)])"

declare show_nat.simps [simp del]

definition hex_char :: "nat \<Rightarrow> char" where
  "hex_char d = ''0123456789abcdef'' ! (d mod 16)"

text \<open>\<open>Number.prototype.toString(16)\<close> on a non-negative integer.\<close>

fun toString16 :: "nat \<Rightarrow> string" where
  "toString16 n = (if n < 16 then [hex_char n] else toString16 (n div 16) @ [hex_char (n mod 16)])"

declare toString16.simps [simp del]

text \<open>
  The white space and line terminators that \<open>parseFloat\<close> skips at the start of its
  argument: the ASCII ones, and the UTF-8 encodings of U+00A0, U+1680, U+2000 to U+200A,
  U+2028, U+2029, U+202F, U+205F, U+3000 and U+FEFF.
\<close>

definition ws3 :: "nat list \<Rightarrow> bool" where
  "ws3 bs =
     (bs = [0xE1, 0x9A, 0x80] \<or> bs = [0xE2, 0x81, 0x9F] \<or> bs = [0xE3, 0x80, 0x80] \<or>
      bs = [0xEF, 0xBB, 0xBF] \<or>
      (take 2 bs = [0xE2, 0x80] \<and> length bs = 3 \<and>
       ((0x80 \<le> bs ! 2 \<and> bs ! 2 \<le> 0x8A) \<or> bs ! 2 = 0xA8 \<or> bs ! 2 = 0xA9 \<or> bs ! 2 = 0xAF)))"

fun trim_start :: "string \<Rightarrow> string" where
  "trim_start [] = []"
| "trim_start (c # cs) =
     (if (of_char c :: nat) \<in> {9, 10, 11, 12, 13, 32} then trim_start cs
      else if map of_char (take 2 (c # cs)) = [0xC2, 0xA0 :: nat] then trim_start (drop 1 cs)
      else if ws3 (map of_char (take 3 (c # cs))) then trim_start (drop 2 cs)
      else c # cs)"

text \<open>The value of an exponent part \<open>e\<close>, sign, digits; 0 when the text is not one.\<close>

definition exponent_part :: "string \<Rightarrow> int" where
  "exponent_part r =
     (case r of
        [] \<Rightarrow> 0
      | c # r1 \<Rightarrow>
          if c = CHR ''e'' \<or> c = CHR ''E'' then
            (case r1 of
               [] \<Rightarrow> 0
             | d # r2 \<Rightarrow>
                 if d = CHR ''-'' then - int (digits_val (takeWhile is_digit r2))
                 else if d = CHR ''+'' then int (digits_val (takeWhile is_digit r2))
                 else int (digits_val (takeWhile is_digit r1)))
          else 0)"

text \<open>
  \<open>parseFloat\<close>: skip leading white space, read the longest prefix that is a decimal
  literal (sign, \<open>Infinity\<close> or digits with an optional fraction and exponent), and round
  its value to a number; \<open>NaN\<close> when no prefix is a literal.
\<close>

definition parseFloat :: "string \<Rightarrow> jsnum" where
  "parseFloat str =
     (let t = trim_start str;
          neg = (take 1 t = ''-'');
          u = (if take 1 t = ''-'' \<or> take 1 t = ''+'' then drop 1 t else t)
      in if take 8 u = ''Infinity'' then JInf neg
         else
           let ip = takeWhile is_digit u;
               r1 = dropWhile is_digit u;
               fp = (case r1 of [] \<Rightarrow> [] | c # r \<Rightarrow> if c = CHR ''.'' then takeWhile is_digit r else []);
               r2 = (case r1 of [] \<Rightarrow> [] | c # r \<Rightarrow> if c = CHR ''.'' then dropWhile is_digit r else r1)
           in if ip = [] \<and> fp = [] then JNaN
              else of_magnitude neg
                     (of_nat (digits_val (ip @ fp)) * pow10 (exponent_part r2 - int (length fp))))"

text \<open>
  The digits \<open>s\<close> and the position \<open>n\<close> of the decimal point that
  \<open>Number.prototype.toString\<close> chooses for a magnitude of at least \<open>10^21\<close>: the
  fewest digits \<open>k\<close> such that \<open>s * 10^(n - k)\<close> rounds to the number, and among
  those the closest to it.
\<close>

definition candidate :: "rat \<Rightarrow> nat \<Rightarrow> nat \<Rightarrow> (nat \<times> nat) option" where
  "candidate x n0 k =
     (let p = 10 ^ (n0 - k);
          lo = nat \<lfloor>x / of_nat p\<rfloor>;
          hi = lo + 1;
          oklo = (round_double (of_nat (lo * p)) = Some x);
          okhi = (round_double (of_nat (hi * p)) = Some x);
          dlo = x - of_nat (lo * p);
          dhi = of_nat (hi * p) - x
      in if okhi \<and> (\<not> oklo \<or> dhi < dlo \<or> (dhi = dlo \<and> even hi))
         then Some (if hi = 10 ^ k then (10 ^ (k - 1), n0 + 1) else (hi, n0))
         else if oklo then Some (lo, n0) else None)"

definition shortest_decimal :: "rat \<Rightarrow> nat \<times> nat" where
  "shortest_decimal x =
     (let n0 = length (show_nat (nat \<lfloor>x\<rfloor>))
      in case List.map_filter (candidate x n0) [1..<18] of
           [] \<Rightarrow> (nat \<lfloor>x\<rfloor>, n0)
         | c # _ \<Rightarrow> c)"

definition toString_large :: "rat \<Rightarrow> string" where
  "toString_large x =
     (let (s, n) = shortest_decimal x; ds = show_nat s
      in (if length ds = 1 then ds else take 1 ds @ ''.'' @ drop 1 ds) @ ''e+'' @ show_nat (n - 1))"

text \<open>
  \<open>Number.prototype.toFixed\<close> with \<open>f\<close> fraction digits (\<open>f \<le> 100\<close> at every call
  of the simulator): the integer \<open>n\<close> closest to \<open>x * 10^f\<close>, the larger one on a tie,
  printed with the decimal point before its last \<open>f\<close> digits; a magnitude of \<open>10^21\<close>
  or more is printed by \<open>toString\<close> instead.
\<close>

definition toFixed :: "jsnum \<Rightarrow> nat \<Rightarrow> string" where
  "toFixed x f =
     (case x of
        JNaN \<Rightarrow> ''NaN''
      | JInf s \<Rightarrow> (if s then ''-Infinity'' else ''Infinity'')
      | JFin s m \<Rightarrow>
          (if s \<and> 0 < m then ''-'' else '''') @
          (if 10 ^ 21 \<le> m then toString_large m
           else
             let ds = show_nat (nat \<lfloor>m * 10 ^ f + 1 / 2\<rfloor>);
                 zs = (if length ds \<le> f then replicate (f + 1 - length ds) CHR ''0'' @ ds else ds)
             in if f = 0 then ds
                else take (length zs - f) zs @ ''.'' @ drop (length zs - f) zs))"

text \<open>
  \<open>String.prototype.split(':')\<close>: the parts between the colons, always at least one.
  An index out of range reads \<open>undefined\<close>, here \<open>None\<close>; a template literal prints
  \<open>undefined\<close> as that word.
\<close>

fun split_colon :: "string \<Rightarrow> string list" where
  "split_colon [] = [[]]"
| "split_colon (c # cs) =
     (if c = CHR '':'' then [] # split_colon cs
      else (case split_colon cs of [] \<Rightarrow> [[c]] | p # ps \<Rightarrow> (c # p) # ps))"

definition nth_opt :: "'a list \<Rightarrow> nat \<Rightarrow> 'a option" where
  "nth_opt xs i = (if i < length xs then Some (xs ! i) else None)"

definition template :: "string option \<Rightarrow> string" where
  "template v = (case v of None \<Rightarrow> ''undefined'' | Some s \<Rightarrow> s)"

definition startsWith :: "string \<Rightarrow> string \<Rightarrow> bool" where
  "startsWith s p = (take (length p) s = p)"

section \<open>Data model\<close>

text \<open>
  The types of \<open>types.ts\<close> and the \<open>StoredSwap\<close> of the simulator. An optional field
  is an \<open>option\<close>; a required field has its declared type, so that \<open>!x\<close> on a
  required string is true of the empty string only. An instant (\<open>Date\<close>) is its number
  of milliseconds; the ISO 8601 text of an instant is not modelled, so \<open>timestamp\<close>,
  the quote's \<open>deadline\<close> and the \<open>updatedAt\<close> of a status response are instants
  too.

  What a promise is rejected with, or a statement throws, is any value: \<open>undefined\<close>,
  \<open>null\<close>, an object whose \<open>message\<close> is a string (an \<open>Error\<close>), or another value,
  whose \<open>message\<close> reads \<open>undefined\<close>. Reading \<open>error.message\<close> throws a
  \<open>TypeError\<close> on the first two; the text of its message is the one of V8.
\<close>

datatype thrown = Undefined | Null | Error string | Other

definition read_message :: "thrown \<Rightarrow> thrown + string option" where
  "read_message e =
     (case e of
        Undefined \<Rightarrow> Inl (Error ''Cannot read properties of undefined (reading 'message')'')
      | Null \<Rightarrow> Inl (Error ''Cannot read properties of null (reading 'message')'')
      | Error m \<Rightarrow> Inr (Some m)
      | Other \<Rightarrow> Inr None)"

datatype SwapType = EXACT_INPUT | EXACT_OUTPUT | ANY_INPUT

datatype SwapStatus =
  PENDING_DEPOSIT | PROCESSING | SUCCESS | INCOMPLETE_DEPOSIT | REFUNDED | FAILED

record QuoteRequest =
  dry :: "bool option"
  swapType :: SwapType
  slippageTolerance :: "jsnum option"
  originAsset :: string
  destinationAsset :: string
  amount :: string
  refundTo :: string
  recipient :: string
  deadline :: "string option"

record RouteStep =
  step_from :: "string option"
  step_to :: "string option"
  protocol :: string

record Route =
  steps :: "RouteStep list"

record SwapDetails =
  nearTxHashes :: "string list"
  destinationTxHash :: "string option"
  amountIn :: string
  amountOut :: string
  executionTime :: int

record Quote =
  depositAddress :: string
  amountIn :: string
  amountOut :: string
  amountOutFormatted :: string
  deadline :: int
  timeEstimate :: nat
  fee :: string
  route :: Route

record QuoteResponse =
  quoteId :: string
  timestamp :: int
  quoteRequest :: QuoteRequest
  quote :: Quote

record SwapStatusResponse =
  quoteResponse :: QuoteResponse
  status :: SwapStatus
  updatedAt :: int
  swapDetails :: "SwapDetails option"
  error :: "string option"

record StoredSwap =
  quoteResponse :: QuoteResponse
  status :: SwapStatus
  createdAt :: int
  updatedAt :: int
  swapDetails :: "SwapDetails option"
  error :: "string option"

text \<open>
  The simulator object: the \<open>swaps\<close> map and whether a \<open>nearExec\<close> adapter was given
  to the constructor (the \<open>crossChain\<close> adapter always is). The event loop is part of
  the state: \<open>timers\<close> holds the quote ids of the \<open>setTimeout\<close> callbacks that have
  not fired yet, \<open>running\<close> those of the \<open>simulateExecution\<close> calls that are waiting
  for their delay and their adapters.
\<close>

record simulator =
  swaps :: "string \<rightharpoonup> StoredSwap"
  nearExec :: bool
  timers :: "string list"
  running :: "string list"

definition OneClickSimulator :: "bool \<Rightarrow> simulator" where
  "OneClickSimulator withNearExec =
     \<lparr>swaps = Map.empty, nearExec = withNearExec, timers = [], running = []\<rparr>"

text \<open>
  What a call of \<open>requestQuote\<close> reads from outside the simulator: the outcome of
  \<open>crossChain.deriveAddress\<close> (address and public key, or the rejection), the clock at
  each of its four readings, and the identifier that \<open>randomUUID\<close> returns.
\<close>

record quote_env =
  deriveAddress :: "thrown + string \<times> string"
  deadlineNow :: int
  randomUUID :: string
  timestampNow :: int
  createdNow :: int
  updatedNow :: int

text \<open>
  What a run of \<open>simulateExecution\<close> reads from outside: the clock when it starts and
  when it ends, the outcome of \<open>nearExec.sendNearTransfer\<close> (transaction hash and block
  height) and of \<open>crossChain.simulateDestinationTx\<close>, each read only if the call is made,
  and the successive values of \<open>Math.random()\<close>. An adapter is outside the simulator
  and may answer anything, so the arguments that it is called with (the sender, the
  \<open>_senderEncryptedPrivateKey\<close> of the request, the recipient, the amount in NEAR, the
  chain and the origin hash) do not enter the model.
\<close>

record exec_env =
  processingNow :: int
  sendNearTransfer :: "thrown + string \<times> nat"
  random :: "nat \<Rightarrow> rat"
  simulateDestinationTx :: "thrown + string"
  finishedNow :: int

section \<open>The simulator\<close>

definition decimals_registry :: "(string \<times> nat) list" where
  "decimals_registry =
     [(''near:native'', 24), (''near:wrap.near'', 24), (''near:usdc.near'', 6),
      (''ethereum:native'', 18), (''ethereum:usdc.eth'', 6), (''bitcoin:native'', 8),
      (''dogecoin:native'', 8)]"

definition getDecimals :: "string option \<Rightarrow> string option \<Rightarrow> nat" where
  "getDecimals chain token =
     (case map_of decimals_registry (template chain @ '':'' @ template token) of
        None \<Rightarrow> 18
      | Some d \<Rightarrow> if d \<noteq> 0 then d else 18)"

definition symbol_registry :: "(string \<times> string) list" where
  "symbol_registry =
     [(''near:native'', ''NEAR''), (''near:wrap.near'', ''wNEAR''), (''near:usdc.near'', ''USDC''),
      (''ethereum:native'', ''ETH''), (''ethereum:usdc.eth'', ''USDC''), (''bitcoin:native'', ''BTC''),
      (''dogecoin:native'', ''DOGE'')]"

definition getSymbol :: "string option \<Rightarrow> string option \<Rightarrow> string option" where
  "getSymbol chain token =
     (case map_of symbol_registry (template chain @ '':'' @ template token) of
        None \<Rightarrow> token
      | Some symb \<Rightarrow> if symb \<noteq> [] then Some symb else token)"

definition generateMockTxHash :: "string \<Rightarrow> (nat \<Rightarrow> rat) \<Rightarrow> string" where
  "generateMockTxHash chain rnd =
     (case map_of [(''NEAR'', ''''), (''ETHEREUM'', ''0x''), (''BITCOIN'', '''')] chain of
        None \<Rightarrow> ''''
      | Some pre \<Rightarrow> pre) @
     concat (map (\<lambda>i. toString16 (nat \<lfloor>rnd i * 16\<rfloor>)) [0..<64])"

definition validateQuoteRequest :: "QuoteRequest \<Rightarrow> thrown + unit" where
  "validateQuoteRequest request =
     (if originAsset request = [] \<or> destinationAsset request = [] then
        Inl (Error ''Origin and destination assets required'')
      else if amount request = [] \<or> js_le (parseFloat (amount request)) (js_lit 0 0) then
        Inl (Error ''Valid amount required'')
      else if refundTo request = [] \<or> recipient request = [] then
        Inl (Error ''Refund and recipient addresses required'')
      else Inr ())"

text \<open>The local values of \<open>calculateQuote\<close>, named as in the source.\<close>

definition originChain :: "QuoteRequest \<Rightarrow> string option" where
  "originChain request = nth_opt (split_colon (originAsset request)) 0"

definition originToken :: "QuoteRequest \<Rightarrow> string option" where
  "originToken request = nth_opt (split_colon (originAsset request)) 1"

definition destChain :: "QuoteRequest \<Rightarrow> string option" where
  "destChain request = nth_opt (split_colon (destinationAsset request)) 0"

definition destToken :: "QuoteRequest \<Rightarrow> string option" where
  "destToken request = nth_opt (split_colon (destinationAsset request)) 1"

definition amountInNum :: "QuoteRequest \<Rightarrow> jsnum" where
  "amountInNum request = parseFloat (amount request)"

definition feePercent :: jsnum where
  "feePercent = js_lit 3 (- 3)"

definition amountOutNum :: "QuoteRequest \<Rightarrow> jsnum" where
  "amountOutNum request = js_mul (amountInNum request) (js_sub (js_lit 1 0) feePercent)"

definition slippage :: "QuoteRequest \<Rightarrow> jsnum" where
  "slippage request =
     (case slippageTolerance request of
        None \<Rightarrow> js_lit 1 (- 2)
      | Some t \<Rightarrow> if js_truthy t then t else js_lit 1 (- 2))"

definition amountOutWithSlippage :: "QuoteRequest \<Rightarrow> jsnum" where
  "amountOutWithSlippage request =
     js_mul (amountOutNum request) (js_sub (js_lit 1 0) (slippage request))"

definition isCrossChain :: "QuoteRequest \<Rightarrow> bool" where
  "isCrossChain request = (originChain request \<noteq> destChain request)"

definition calculateQuote :: "QuoteRequest \<Rightarrow> quote_env \<Rightarrow> thrown + Quote" where
  "calculateQuote request env =
     (let originSymbol = getSymbol (originChain request) (originToken request);
          destSymbol = getSymbol (destChain request) (destToken request);
          bridged = template originSymbol @ '' (bridged)''
      in case (if originChain request \<noteq> Some ''near''
               then map_sum id fst (deriveAddress env)
               else Inr (refundTo request)) of
           Inl e \<Rightarrow> Inl e
         | Inr address \<Rightarrow>
             Inr \<lparr>depositAddress = address,
                  Quote.amountIn = amount request,
                  Quote.amountOut =
                    toFixed (amountOutWithSlippage request)
                      (getDecimals (destChain request) (destToken request)),
                  amountOutFormatted =
                    toFixed (amountOutWithSlippage request) 2 @ '' '' @ template destSymbol,
                  Quote.deadline = deadlineNow env + 5 * 60 * 1000,
                  timeEstimate = (if isCrossChain request then 45 else 7),
                  fee =
                    toFixed (js_mul (amountInNum request) feePercent)
                      (getDecimals (originChain request) (originToken request)),
                  route =
                    \<lparr>steps =
                       (if isCrossChain request
                        then [\<lparr>step_from = originSymbol, step_to = Some bridged,
                               protocol = ''rainbow-bridge''\<rparr>,
                              \<lparr>step_from = Some bridged, step_to = destSymbol,
                               protocol = ''uniswap-v3''\<rparr>]
                        else [\<lparr>step_from = originSymbol, step_to = destSymbol,
                               protocol = ''ref-finance''\<rparr>])\<rparr>\<rparr>)"

text \<open>
  \<open>requestQuote\<close> returns the response or the rejection, and the simulator after the
  call. Nothing is written before the quote is computed, so a rejection leaves the
  simulator as it was.
\<close>

definition requestQuote ::
  "simulator \<Rightarrow> QuoteRequest \<Rightarrow> quote_env \<Rightarrow> (thrown + QuoteResponse) \<times> simulator" where
  "requestQuote this request env =
     (case validateQuoteRequest request of
        Inl e \<Rightarrow> (Inl e, this)
      | Inr _ \<Rightarrow>
          (case calculateQuote request env of
             Inl e \<Rightarrow> (Inl e, this)
           | Inr q \<Rightarrow>
               let response =
                     \<lparr>quoteId = randomUUID env, timestamp = timestampNow env,
                      quoteRequest = request, quote = q\<rparr>;
                   stored =
                     \<lparr>quoteResponse = response, status = PENDING_DEPOSIT,
                      createdAt = createdNow env, updatedAt = updatedNow env,
                      swapDetails = None, error = None\<rparr>
               in (Inr response,
                   this\<lparr>swaps := (swaps this)(randomUUID env \<mapsto> stored),
                        timers := (if dry request = Some True then timers this
                                   else timers this @ [randomUUID env])\<rparr>)))"

definition getSwapStatus ::
  "simulator \<Rightarrow> string \<Rightarrow> (thrown + SwapStatusResponse) \<times> simulator" where
  "getSwapStatus this qid =
     (case swaps this qid of
        None \<Rightarrow> (Inl (Error (''Quote not found: '' @ qid)), this)
      | Some swap \<Rightarrow>
          (Inr \<lparr>SwapStatusResponse.quoteResponse = quoteResponse swap,
                SwapStatusResponse.status = status swap,
                SwapStatusResponse.updatedAt = updatedAt swap,
                SwapStatusResponse.swapDetails = swapDetails swap,
                SwapStatusResponse.error = error swap\<rparr>,
           this))"

text \<open>
  \<open>simulateExecution\<close>, in the two parts that the event loop runs apart. The first
  part runs when the timer fires: it marks the swap \<open>PROCESSING\<close> and suspends on the
  simulated delay. The second part is the rest of the \<open>try\<close> block, from the end of
  the delay to the last write, and the outer \<open>catch\<close>; the swap is written only at
  its end, so the suspensions on the two adapters inside it are not visible to other
  calls.
\<close>

definition simulateExecution_start :: "int \<Rightarrow> string \<Rightarrow> simulator \<Rightarrow> simulator" where
  "simulateExecution_start now qid this =
     (case swaps this qid of
        None \<Rightarrow> this
      | Some swap \<Rightarrow>
          this\<lparr>swaps := (swaps this)(qid \<mapsto> swap\<lparr>status := PROCESSING, updatedAt := now\<rparr>),
               running := qid # running this\<rparr>)"

text \<open>
  The transfer step: the hash of the real transfer, or a mock hash. The \<open>catch\<close>
  of this step logs \<open>error.message\<close> before it makes the mock hash, so a rejection
  with \<open>undefined\<close> or \<open>null\<close> throws a \<open>TypeError\<close> out of the step.
\<close>

definition transfer :: "bool \<Rightarrow> exec_env \<Rightarrow> QuoteRequest \<Rightarrow> thrown + string" where
  "transfer withNearExec env quoteReq =
     (let recipientAccount =
            (if startsWith (destinationAsset quoteReq) ''near:'' then Some (recipient quoteReq)
             else None)
      in if withNearExec \<and> recipientAccount \<noteq> None \<and> recipientAccount \<noteq> Some []
         then (case sendNearTransfer env of
                 Inr result \<Rightarrow> Inr (fst result)
               | Inl e \<Rightarrow>
                   (case read_message e of
                      Inl typeError \<Rightarrow> Inl typeError
                    | Inr _ \<Rightarrow> Inr (generateMockTxHash ''NEAR'' (random env))))
         else Inr (generateMockTxHash ''NEAR'' (random env)))"

text \<open>
  The \<open>try\<close> block after the delay: the swap as it is written at the end, or what
  the block throws.
\<close>

definition execute :: "bool \<Rightarrow> exec_env \<Rightarrow> StoredSwap \<Rightarrow> thrown + StoredSwap" where
  "execute withNearExec env swap =
     (let quoteReq = quoteRequest (quoteResponse swap)
      in case transfer withNearExec env quoteReq of
           Inl e \<Rightarrow> Inl e
         | Inr nearTxHash \<Rightarrow>
             (case (if destChain quoteReq \<noteq> Some ''near''
                    then map_sum id Some (simulateDestinationTx env)
                    else Inr None) of
                Inl e \<Rightarrow> Inl e
              | Inr destTxHash \<Rightarrow>
                  Inr (swap\<lparr>status := SUCCESS, updatedAt := finishedNow env,
                            swapDetails :=
                              Some \<lparr>nearTxHashes = [nearTxHash],
                                    destinationTxHash = destTxHash,
                                    SwapDetails.amountIn = amount quoteReq,
                                    SwapDetails.amountOut =
                                      Quote.amountOut (quote (quoteResponse swap)),
                                    executionTime =
                                      (finishedNow env - createdAt swap) div 1000\<rparr>\<rparr>)))"

text \<open>
  The end of an execution. The outer \<open>catch\<close> logs \<open>error.message\<close> before it
  writes anything: when that read throws, the promise of \<open>simulateExecution\<close> rejects
  and the swap stays as it was. Otherwise the swap is written \<open>FAILED\<close> with what
  \<open>error.message\<close> reads, a string or \<open>undefined\<close>.
\<close>

definition simulateExecution_finish :: "exec_env \<Rightarrow> string \<Rightarrow> simulator \<Rightarrow> simulator" where
  "simulateExecution_finish env qid this =
     (case swaps this qid of
        None \<Rightarrow> this
      | Some swap \<Rightarrow>
          this\<lparr>swaps :=
                 (swaps this)(qid \<mapsto>
                   (case execute (nearExec this) env swap of
                      Inr swap' \<Rightarrow> swap'
                    | Inl e \<Rightarrow>
                        (case read_message e of
                           Inl typeError \<Rightarrow> swap
                         | Inr msg \<Rightarrow>
                             swap\<lparr>status := FAILED, updatedAt := finishedNow env,
                                  error := msg\<rparr>))),
               running := remove1 qid (running this)\<rparr>)"

definition simulateExecution :: "exec_env \<Rightarrow> string \<Rightarrow> simulator \<Rightarrow> simulator" where
  "simulateExecution env qid this =
     simulateExecution_finish env qid (simulateExecution_start (processingNow env) qid this)"

section \<open>The simulator as a transition system\<close>

text \<open>
  One step is one turn of the event loop that touches the simulator: a call of
  \<open>requestQuote\<close> (\<open>randomUUID\<close> returns an identifier that was not issued before),
  a timer that fires and starts \<open>simulateExecution\<close>, a running execution that comes
  to its end, or a call of \<open>getSwapStatus\<close>.
\<close>

inductive step :: "simulator \<Rightarrow> simulator \<Rightarrow> bool" where
  request: "randomUUID env \<notin> dom (swaps this) \<Longrightarrow> step this (snd (requestQuote this request env))"
| fire: "qid \<in> set (timers this) \<Longrightarrow>
         step this (simulateExecution_start now qid (this\<lparr>timers := remove1 qid (timers this)\<rparr>))"
| settle: "qid \<in> set (running this) \<Longrightarrow> step this (simulateExecution_finish env qid this)"
| poll: "step this (snd (getSwapStatus this qid))"

inductive reachable :: "simulator \<Rightarrow> bool" where
  initial: "reachable (OneClickSimulator withNearExec)"
| after: "reachable this \<Longrightarrow> step this this' \<Longrightarrow> reachable this'"

section \<open>The lifecycle of a swap\<close>

text \<open>The order in which the status of a swap may change.\<close>

fun lifecycle :: "SwapStatus \<Rightarrow> SwapStatus \<Rightarrow> bool" where
  "lifecycle PENDING_DEPOSIT PROCESSING = True"
| "lifecycle PROCESSING SUCCESS = True"
| "lifecycle PROCESSING FAILED = True"
| "lifecycle _ _ = False"

definition is_dry :: "StoredSwap \<Rightarrow> bool" where
  "is_dry swap = (dry (quoteRequest (quoteResponse swap)) = Some True)"

text \<open>
  What holds of every stored swap in every reachable state: its status tells where its
  execution stands in the event loop, and the details and the error message are unset
  until the execution ends. A swap is \<open>PROCESSING\<close> while its execution runs, and
  after an execution whose outer \<open>catch\<close> threw.
\<close>

definition swap_ok :: "simulator \<Rightarrow> string \<Rightarrow> StoredSwap \<Rightarrow> bool" where
  "swap_ok this qid swap =
     (case status swap of
        PENDING_DEPOSIT \<Rightarrow>
          (qid \<in> set (timers this)) = (\<not> is_dry swap) \<and> qid \<notin> set (running this) \<and>
          swapDetails swap = None \<and> error swap = None
      | PROCESSING \<Rightarrow>
          qid \<notin> set (timers this) \<and> \<not> is_dry swap \<and>
          swapDetails swap = None \<and> error swap = None
      | SUCCESS \<Rightarrow>
          qid \<notin> set (timers this) \<and> qid \<notin> set (running this) \<and> \<not> is_dry swap
      | FAILED \<Rightarrow>
          qid \<notin> set (timers this) \<and> qid \<notin> set (running this) \<and> \<not> is_dry swap \<and>
          swapDetails swap = None
      | INCOMPLETE_DEPOSIT \<Rightarrow> False
      | REFUNDED \<Rightarrow> False)"

definition invariant :: "simulator \<Rightarrow> bool" where
  "invariant this =
     (distinct (timers this) \<and> distinct (running this) \<and>
      set (timers this) \<union> set (running this) \<subseteq> dom (swaps this) \<and>
      (\<forall>qid swap. swaps this qid = Some swap \<longrightarrow> swap_ok this qid swap))"

section \<open>The formats of the specification and sample requests\<close>





text \<open>
  The asset format of the specification: an asset splits at its colons into exactly
  two parts, none of them empty.
\<close>

definition two_nonempty_parts :: "string \<Rightarrow> bool" where
  "two_nonempty_parts asset =
     (case split_colon asset of
        [chain, token] \<Rightarrow> chain \<noteq> [] \<and> token \<noteq> []
      | _ \<Rightarrow> False)"

text \<open>A request for a swap inside NEAR, and the outside world of one call.\<close>

definition sample_request :: QuoteRequest where
  "sample_request =
     \<lparr>dry = None, swapType = EXACT_INPUT, slippageTolerance = None,
      originAsset = ''near:native'', destinationAsset = ''near:usdc.near'', amount = ''1000'',
      refundTo = ''alice.near'', recipient = ''bob.near'', QuoteRequest.deadline = None\<rparr>"

definition sample_env :: quote_env where
  "sample_env =
     \<lparr>deriveAddress = Inr (''0x1234'', ''secp256k1:abcd''), deadlineNow = 1000,
      randomUUID = ''q1'', timestampNow = 1001, createdNow = 1002, updatedNow = 1003\<rparr>"

definition sample_quote :: Quote where
  "sample_quote =
     \<lparr>depositAddress = ''alice.near'', Quote.amountIn = ''1000'',
      Quote.amountOut = ''987.030000'', amountOutFormatted = ''987.03 USDC'',
      Quote.deadline = 301000, timeEstimate = 7, fee = ''3.000000000000000000000000'',
      route = \<lparr>steps = [\<lparr>step_from = Some ''NEAR'', step_to = Some ''USDC'',
                           protocol = ''ref-finance''\<rparr>]\<rparr>\<rparr>"

definition sample_exec :: exec_env where
  "sample_exec =
     \<lparr>processingNow = 2000, sendNearTransfer = Inl (Error ''connection refused''),
      random = (\<lambda>i. of_nat i / 64), simulateDestinationTx = Inl (Error ''bridge down''),
      finishedNow = 5000\<rparr>"

text \<open>Adapters that reject with \<open>undefined\<close>.\<close>

definition nullish_exec :: exec_env where
  "nullish_exec =
     sample_exec\<lparr>sendNearTransfer := Inl Undefined, simulateDestinationTx := Inl Undefined\<rparr>"

text \<open>The same request with a slippage tolerance of zero, with a dry run, with an
  amount that is no number, with an origin asset without a colon, and with a destination
  on another chain.\<close>

definition zero_slippage_request :: QuoteRequest where
  "zero_slippage_request = sample_request\<lparr>slippageTolerance := Some (JFin False 0)\<rparr>"

definition dry_request :: QuoteRequest where
  "dry_request = sample_request\<lparr>dry := Some True\<rparr>"

definition non_numeric_request :: QuoteRequest where
  "non_numeric_request = sample_request\<lparr>amount := ''abc''\<rparr>"

definition malformed_request :: QuoteRequest where
  "malformed_request = sample_request\<lparr>originAsset := ''invalid-format''\<rparr>"

definition bridge_request :: QuoteRequest where
  "bridge_request = sample_request\<lparr>destinationAsset := ''ethereum:usdc.eth''\<rparr>"

definition bridge_quote :: Quote where
  "bridge_quote =
     sample_quote
       \<lparr>timeEstimate := 45,
        route := \<lparr>steps = [\<lparr>step_from = Some ''NEAR'', step_to = Some ''NEAR (bridged)'',
                             protocol = ''rainbow-bridge''\<rparr>,
                            \<lparr>step_from = Some ''NEAR (bridged)'', step_to = Some ''USDC'',
                             protocol = ''uniswap-v3''\<rparr>]\<rparr>\<rparr>"

text \<open>
  Requests at the edges of the fee model: an amount below the smallest unit of the
  destination asset, a negative slippage tolerance, one NEAR in yoctoNEAR, and an
  infinite amount with a slippage tolerance of one.
\<close>

definition tiny_request :: QuoteRequest where
  "tiny_request = sample_request\<lparr>amount := ''0.0000006''\<rparr>"

definition negative_slippage_request :: QuoteRequest where
  "negative_slippage_request = sample_request\<lparr>slippageTolerance := Some (JFin True (1 / 2))\<rparr>"



text \<open>The stored swap of a request and the states of a simulator that has accepted it.\<close>

definition stored :: "QuoteRequest \<Rightarrow> Quote \<Rightarrow> StoredSwap" where
  "stored request q =
     \<lparr>quoteResponse = \<lparr>quoteId = ''q1'', timestamp = 1001, quoteRequest = request, quote = q\<rparr>,
      status = PENDING_DEPOSIT, createdAt = 1002, updatedAt = 1003,
      swapDetails = None, error = None\<rparr>"

definition pending_state :: "QuoteRequest \<Rightarrow> Quote \<Rightarrow> simulator" where
  "pending_state request q =
     \<lparr>swaps = [''q1'' \<mapsto> stored request q], nearExec = True,
      timers = (if dry request = Some True then [] else [''q1'']), running = []\<rparr>"

definition processing_state :: "QuoteRequest \<Rightarrow> Quote \<Rightarrow> simulator" where
  "processing_state request q =
     \<lparr>swaps = [''q1'' \<mapsto> (stored request q)\<lparr>status := PROCESSING, updatedAt := 2000\<rparr>],
      nearExec = True, timers = [], running = [''q1'']\<rparr>"

section \<open>Rounding is monotone and idempotent\<close>

lemma pow2_powi: "pow2 e = 2 powi e"
  by (simp add: pow2_def power_int_def field_simps)















lemma pow2_nonneg [simp]: "0 \<le> pow2 e"
  by (simp add: pow2_powi)











section \<open>The invariant of the transition system\<close>

lemma execute_Inr:
  assumes "execute b env swap = Inr swap'"
  shows "\<exists>d. swap' = swap\<lparr>status := SUCCESS, updatedAt := finishedNow env, swapDetails := Some d\<rparr>"
  using assms unfolding execute_def Let_def by (auto split: sum.splits if_splits)

lemma swap_ok_cong:
  assumes "swap_ok this qid swap"
    and "(qid \<in> set (timers this')) = (qid \<in> set (timers this))"
    and "(qid \<in> set (running this')) = (qid \<in> set (running this))"
  shows "swap_ok this' qid swap"
  using assms unfolding swap_ok_def by (cases "status swap") simp_all

lemma invariant_settle:
  assumes "invariant this" and "qid \<in> set (running this)"
  shows "invariant (simulateExecution_finish env qid this)"
proof -
  obtain swap where sw: "swaps this qid = Some swap"
    using assms by (auto simp: invariant_def)
  have ok: "swap_ok this qid swap" using assms sw by (simp add: invariant_def)
  have st: "status swap = PROCESSING \<and> \<not> is_dry swap \<and> qid \<notin> set (timers this) \<and>
       swapDetails swap = None \<and> error swap = None"
    using ok assms(2) unfolding swap_ok_def by (cases "status swap") simp_all
  define new where "new = (case execute (nearExec this) env swap of
                      Inr swap' \<Rightarrow> swap'
                    | Inl e \<Rightarrow>
                        (case read_message e of
                           Inl typeError \<Rightarrow> swap
                         | Inr msg \<Rightarrow>
                             swap\<lparr>status := FAILED, updatedAt := finishedNow env,
                                  error := msg\<rparr>))"
  define this' where "this' = this\<lparr>swaps := (swaps this)(qid \<mapsto> new), running := remove1 qid (running this)\<rparr>"
  have fin: "simulateExecution_finish env qid this = this'"
    using sw by (simp add: simulateExecution_finish_def new_def this'_def)
  have dist: "distinct (running this)" "distinct (timers this)"
    using assms(1) by (simp_all add: invariant_def)
  have new_ok: "(status new = SUCCESS \<or> status new = FAILED \<and> swapDetails new = None \<or>
       new = swap) \<and> \<not> is_dry new"
  proof (cases "execute (nearExec this) env swap")
    case (Inl e)
    then show ?thesis using st by (cases "read_message e") (simp_all add: new_def is_dry_def)
  next
    case (Inr s')
    then show ?thesis using st execute_Inr[OF Inr] by (auto simp add: new_def is_dry_def)
  qed
  have t': "timers this' = timers this" "running this' = remove1 qid (running this)"
     "swaps this' = (swaps this)(qid \<mapsto> new)"
    by (simp_all add: this'_def)
  have self: "swap_ok this' qid new"
    using new_ok st dist unfolding swap_ok_def t' by auto
  have others: "swap_ok this' q s" if "q \<noteq> qid" "swaps this q = Some s" for q s
  proof (rule swap_ok_cong)
    show "swap_ok this q s" using assms(1) that by (simp add: invariant_def)
    show "(q \<in> set (timers this')) = (q \<in> set (timers this))" by (simp add: t')
    show "(q \<in> set (running this')) = (q \<in> set (running this))" using that by (simp add: t')
  qed
  have "distinct (timers this')" "distinct (running this')"
    using dist by (simp_all add: t')
  moreover have "set (timers this') \<union> set (running this') \<subseteq> dom (swaps this')"
    using assms(1) unfolding invariant_def t' by (auto dest: notin_set_remove1)
  moreover have "\<forall>q s. swaps this' q = Some s \<longrightarrow> swap_ok this' q s"
    using self others unfolding t' by (auto split: if_splits)
  ultimately show ?thesis unfolding fin invariant_def by blast
qed


lemma invariant_init: "invariant (OneClickSimulator b)"
  by (simp add: invariant_def OneClickSimulator_def)

lemma invariant_fire:
  assumes "invariant this" and "qid \<in> set (timers this)"
  shows "invariant (simulateExecution_start now qid (this\<lparr>timers := remove1 qid (timers this)\<rparr>))"
proof -
  obtain swap where sw: "swaps this qid = Some swap"
    using assms by (auto simp: invariant_def)
  have ok: "swap_ok this qid swap" using assms sw by (simp add: invariant_def)
  have st: "status swap = PENDING_DEPOSIT \<and> \<not> is_dry swap \<and> qid \<notin> set (running this) \<and>
       swapDetails swap = None \<and> error swap = None"
    using ok assms(2) unfolding swap_ok_def by (cases "status swap") simp_all
  define new where "new = swap\<lparr>status := PROCESSING, updatedAt := now\<rparr>"
  define this' where "this' = this\<lparr>timers := remove1 qid (timers this),
     swaps := (swaps this)(qid \<mapsto> new), running := qid # running this\<rparr>"
  have fin: "simulateExecution_start now qid (this\<lparr>timers := remove1 qid (timers this)\<rparr>) = this'"
    using sw by (simp add: simulateExecution_start_def new_def this'_def)
  have dist: "distinct (running this)" "distinct (timers this)"
    using assms(1) by (simp_all add: invariant_def)
  have t': "timers this' = remove1 qid (timers this)" "running this' = qid # running this"
     "swaps this' = (swaps this)(qid \<mapsto> new)"
    by (simp_all add: this'_def)
  have self: "swap_ok this' qid new"
    using st dist unfolding swap_ok_def t' by (simp add: new_def is_dry_def)
  have others: "swap_ok this' q s" if "q \<noteq> qid" "swaps this q = Some s" for q s
  proof (rule swap_ok_cong)
    show "swap_ok this q s" using assms(1) that by (simp add: invariant_def)
    show "(q \<in> set (timers this')) = (q \<in> set (timers this))" using that by (simp add: t')
    show "(q \<in> set (running this')) = (q \<in> set (running this))" using that by (simp add: t')
  qed
  have "distinct (timers this')" "distinct (running this')"
    using dist st by (simp_all add: t')
  moreover have "set (timers this') \<union> set (running this') \<subseteq> dom (swaps this')"
    using assms(1) unfolding invariant_def t' by (auto dest: notin_set_remove1)
  moreover have "\<forall>q s. swaps this' q = Some s \<longrightarrow> swap_ok this' q s"
    using self others unfolding t' by (auto split: if_splits)
  ultimately show ?thesis unfolding fin invariant_def by blast
qed

lemma requestQuote_cases:
  obtains (rejected) e where "requestQuote this request env = (Inl e, this)"
  | (accepted) q where "calculateQuote request env = Inr q"
      "requestQuote this request env =
        (Inr \<lparr>quoteId = randomUUID env, timestamp = timestampNow env,
              quoteRequest = request, quote = q\<rparr>,
         this\<lparr>swaps := (swaps this)(randomUUID env \<mapsto>
                 \<lparr>quoteResponse = \<lparr>quoteId = randomUUID env, timestamp = timestampNow env,
                                   quoteRequest = request, quote = q\<rparr>,
                  status = PENDING_DEPOSIT, createdAt = createdNow env,
                  updatedAt = updatedNow env, swapDetails = None, error = None\<rparr>),
              timers := (if dry request = Some True then timers this
                         else timers this @ [randomUUID env])\<rparr>)"
      "validateQuoteRequest request = Inr ()"
proof (cases "validateQuoteRequest request")
  case (Inl e)
  then show ?thesis using rejected by (simp add: requestQuote_def)
next
  case (Inr u)
  show ?thesis
  proof (cases "calculateQuote request env")
    case (Inl e)
    then show ?thesis using rejected Inr by (simp add: requestQuote_def)
  next
    case q: (Inr q)
    then show ?thesis using accepted[of q] Inr by (simp add: requestQuote_def Let_def)
  qed
qed

lemma invariant_request:
  assumes "invariant this" and "randomUUID env \<notin> dom (swaps this)"
  shows "invariant (snd (requestQuote this request env))"
proof (cases rule: requestQuote_cases[of this request env])
  case (rejected e)
  then show ?thesis using assms by simp
next
  case (accepted q)
  define new where "new = \<lparr>quoteResponse = \<lparr>quoteId = randomUUID env, timestamp = timestampNow env,
                                   quoteRequest = request, quote = q\<rparr>,
                  status = PENDING_DEPOSIT, createdAt = createdNow env,
                  updatedAt = updatedNow env, swapDetails = None, error = None\<rparr>"
  define qid where "qid = randomUUID env"
  define this' where "this' = this\<lparr>swaps := (swaps this)(qid \<mapsto> new),
              timers := (if dry request = Some True then timers this
                         else timers this @ [qid])\<rparr>"
  have fin: "snd (requestQuote this request env) = this'"
    using accepted(2) by (simp add: this'_def new_def qid_def)
  have fresh: "qid \<notin> set (timers this)" "qid \<notin> set (running this)" "swaps this qid = None"
    using assms by (auto simp: invariant_def qid_def)
  have dist: "distinct (running this)" "distinct (timers this)"
    using assms(1) by (simp_all add: invariant_def)
  have t': "timers this' = (if dry request = Some True then timers this else timers this @ [qid])"
     "running this' = running this"
     "swaps this' = (swaps this)(qid \<mapsto> new)"
    by (simp_all add: this'_def)
  have self: "swap_ok this' qid new"
    using fresh unfolding swap_ok_def t' by (simp add: new_def is_dry_def)
  have others: "swap_ok this' q s" if "q \<noteq> qid" "swaps this q = Some s" for q s
  proof (rule swap_ok_cong)
    show "swap_ok this q s" using assms(1) that by (simp add: invariant_def)
    show "(q \<in> set (timers this')) = (q \<in> set (timers this))" using that by (simp add: t')
    show "(q \<in> set (running this')) = (q \<in> set (running this))" using that by (simp add: t')
  qed
  have "distinct (timers this')" "distinct (running this')"
    using dist fresh by (simp_all add: t')
  moreover have "set (timers this') \<union> set (running this') \<subseteq> dom (swaps this')"
    using assms(1) unfolding invariant_def t' by auto
  moreover have "\<forall>q s. swaps this' q = Some s \<longrightarrow> swap_ok this' q s"
    using self others unfolding t' by (auto split: if_splits)
  ultimately show ?thesis unfolding fin invariant_def by blast
qed

lemma invariant_step: "step this this' \<Longrightarrow> invariant this \<Longrightarrow> invariant this'"
proof (induction rule: step.induct)
  case (request env this request)
  then show ?case by (simp add: invariant_request)
next
  case (fire qid this now)
  then show ?case by (simp add: invariant_fire)
next
  case (settle qid this env)
  then show ?case by (simp add: invariant_settle)
next
  case (poll this qid)
  then show ?case by (simp add: getSwapStatus_def split: option.splits)
qed

lemma reachable_invariant: "reachable this \<Longrightarrow> invariant this"
  by (induction rule: reachable.induct) (auto simp: invariant_init invariant_step)

section \<open>Quotes of the sample requests and auxiliary facts\<close>

lemma requestQuote_rejected:
  "validateQuoteRequest request = Inl e \<Longrightarrow> requestQuote this request env = (Inl e, this)"
  by (simp add: requestQuote_def)

lemma requestQuote_accepted:
  assumes "validateQuoteRequest request = Inr u" and "calculateQuote request env = Inr q"
  shows "requestQuote this request env =
        (Inr \<lparr>quoteId = randomUUID env, timestamp = timestampNow env,
              quoteRequest = request, quote = q\<rparr>,
         this\<lparr>swaps := (swaps this)(randomUUID env \<mapsto>
                 \<lparr>quoteResponse = \<lparr>quoteId = randomUUID env, timestamp = timestampNow env,
                                   quoteRequest = request, quote = q\<rparr>,
                  status = PENDING_DEPOSIT, createdAt = createdNow env,
                  updatedAt = updatedNow env, swapDetails = None, error = None\<rparr>),
              timers := (if dry request = Some True then timers this
                         else timers this @ [randomUUID env])\<rparr>)"
  using assms by (simp add: requestQuote_def Let_def)

lemma step_status:
  assumes "invariant this" and "step this this'" and "swaps this qid = Some swap"
  shows "\<exists>swap'. swaps this' qid = Some swap' \<and>
           (status swap' = status swap \<or> lifecycle (status swap) (status swap'))"
  using assms(2,1,3)
proof (induction rule: step.induct)
  case (request env this request)
  have ne: "qid \<noteq> randomUUID env" using request by auto
  show ?case
  proof (cases rule: requestQuote_cases[of this request env])
    case (rejected e)
    then show ?thesis using request by simp
  next
    case (accepted q)
    then show ?thesis using request ne by simp
  qed
next
  case (fire q this now)
  obtain sw where sw: "swaps this q = Some sw"
    using fire by (auto simp: invariant_def)
  then have "swap_ok this q sw" using fire by (simp add: invariant_def)
  then have st: "status sw = PENDING_DEPOSIT"
    using fire(1) unfolding swap_ok_def by (cases "status sw") simp_all
  show ?case
  proof (cases "qid = q")
    case True
    then show ?thesis using sw st fire by (simp add: simulateExecution_start_def)
  next
    case False
    then show ?thesis using sw fire by (simp add: simulateExecution_start_def)
  qed
next
  case (settle q this env)
  obtain sw where sw: "swaps this q = Some sw"
    using settle by (auto simp: invariant_def)
  then have "swap_ok this q sw" using settle by (simp add: invariant_def)
  then have st: "status sw = PROCESSING"
    using settle(1) unfolding swap_ok_def by (cases "status sw") simp_all
  show ?case
  proof (cases "qid = q")
    case True
    show ?thesis
    proof (cases "execute (nearExec this) env sw")
      case (Inl e)
      then show ?thesis using True sw st settle
        by (cases "read_message e") (simp_all add: simulateExecution_finish_def)
    next
      case (Inr s')
      from execute_Inr[OF Inr] have "status s' = SUCCESS" by auto
      then show ?thesis using Inr True sw st settle by (simp add: simulateExecution_finish_def)
    qed
  next
    case False
    then show ?thesis using sw settle by (simp add: simulateExecution_finish_def)
  qed
next
  case (poll this q)
  then show ?case by (simp add: getSwapStatus_def split: option.splits)
qed

lemma step_created:
  assumes "step this this'" and "swaps this qid = None" and "swaps this' qid = Some swap'"
  shows "status swap' = PENDING_DEPOSIT"
  using assms
proof (induction rule: step.induct)
  case (request env this request)
  show ?case
  proof (cases rule: requestQuote_cases[of this request env])
    case (rejected e)
    then show ?thesis using request by simp
  next
    case (accepted q)
    then show ?thesis using request by (auto split: if_splits)
  qed
next
  case (fire q this now)
  then show ?case by (auto simp: simulateExecution_start_def split: option.splits if_splits)
next
  case (settle q this env)
  then show ?case by (auto simp: simulateExecution_finish_def split: option.splits if_splits)
next
  case (poll this q)
  then show ?case by (simp add: getSwapStatus_def split: option.splits)
qed

lemma startsWith_near:
  assumes "startsWith asset ''near:''"
  shows "nth_opt (split_colon asset) 0 = Some ''near''"
proof -
  obtain rest where "asset = ''near:'' @ rest"
    using assms unfolding startsWith_def by (metis append_take_drop_id)
  then show ?thesis by (simp add: nth_opt_def split: list.splits)
qed

lemma transfer_simulated:
  assumes "destChain quoteReq \<noteq> Some ''near''"
  shows "transfer b env quoteReq = Inr (generateMockTxHash ''NEAR'' (random env))"
  using assms startsWith_near[of "destinationAsset quoteReq"]
  by (auto simp: transfer_def destChain_def)

lemma transfer_caught:
  assumes "sendNearTransfer env = Inl e" and "read_message e = Inr msg"
  shows "transfer b env quoteReq = Inr (generateMockTxHash ''NEAR'' (random env))"
  using assms by (simp add: transfer_def)

lemma finish_transfer_failure:
  assumes "reachable this" and "qid \<in> set (running this)"
    and "swaps this qid = Some swap"
    and "destChain (quoteRequest (quoteResponse swap)) = Some ''near''"
    and "sendNearTransfer env = Inl e" and "read_message e = Inr msg"
  shows "\<exists>swap' details.
           swaps (simulateExecution_finish env qid this) qid = Some swap' \<and>
           status swap' = SUCCESS \<and> error swap' = None \<and>
           swapDetails swap' = Some details \<and>
           nearTxHashes details = [generateMockTxHash ''NEAR'' (random env)] \<and>
           destinationTxHash details = None"
proof -
  have "execute (nearExec this) env swap =
      Inr (swap\<lparr>status := SUCCESS, updatedAt := finishedNow env,
             swapDetails := Some \<lparr>nearTxHashes = [generateMockTxHash ''NEAR'' (random env)],
                               destinationTxHash = None,
                               SwapDetails.amountIn = amount (quoteRequest (quoteResponse swap)),
                               SwapDetails.amountOut = Quote.amountOut (quote (quoteResponse swap)),
                               executionTime = (finishedNow env - createdAt swap) div 1000\<rparr>\<rparr>)"
    using assms(4) transfer_caught[OF assms(5,6)] by (simp add: execute_def Let_def)
  moreover have "swap_ok this qid swap"
    using reachable_invariant[OF assms(1)] assms(3) by (simp add: invariant_def)
  then have "error swap = None"
    using assms(2) unfolding swap_ok_def by (cases "status swap") simp_all
  ultimately show ?thesis
    using assms(3) by (simp add: simulateExecution_finish_def)
qed

lemma finish_destination_failure:
  assumes "reachable this" and "qid \<in> set (running this)"
    and "swaps this qid = Some swap"
    and "destChain (quoteRequest (quoteResponse swap)) \<noteq> Some ''near''"
    and "simulateDestinationTx env = Inl (Error msg)"
  shows "\<exists>swap'.
           swaps (simulateExecution_finish env qid this) qid = Some swap' \<and>
           status swap' = FAILED \<and> error swap' = Some msg \<and>
           swapDetails swap' = None"
proof -
  have "execute (nearExec this) env swap = Inl (Error msg)"
    using assms(4,5) transfer_simulated[OF assms(4)] by (simp add: execute_def Let_def)
  moreover have "swap_ok this qid swap"
    using reachable_invariant[OF assms(1)] assms(3) by (simp add: invariant_def)
  then have "swapDetails swap = None"
    using assms(2) unfolding swap_ok_def by (cases "status swap") simp_all
  ultimately show ?thesis
    using assms(3) by (simp add: simulateExecution_finish_def read_message_def)
qed

lemma floor_numeral_div: "\<lfloor>(numeral a :: rat) / numeral b\<rfloor> = numeral a div numeral b"
  using floor_divide_of_int_eq[of "numeral a" "numeral b", where ?'a = rat] by simp

lemmas num_eval = pow2_def pow10_def ilog2_up.simps ilog2_down.simps ilog2_def round_half_even_def
  ulp_exp_def round_double_def Let_def floor_numeral_div of_magnitude_def signed_def js_lit_def
  js_sub_def

lemmas str_eval = is_digit_def digit_val_def digits_val_def digit_char_def show_nat.simps ws3_def
  exponent_part_def parseFloat_def toFixed_def nth_opt_def template_def startsWith_def

lemmas sim_eval = decimals_registry_def getDecimals_def symbol_registry_def getSymbol_def
  originChain_def originToken_def destChain_def destToken_def
  amountInNum_def feePercent_def amountOutNum_def slippage_def amountOutWithSlippage_def
  isCrossChain_def calculateQuote_def

lemma js_lit_0: "js_lit 0 0 = JFin False 0"
  by (simp add: js_lit_def of_magnitude_def round_double_def)







lemma parse_1000: "parseFloat ''1000'' = JFin False 1000"
  by (simp add: str_eval num_eval)

lemma fee_1000: "toFixed (js_mul (JFin False 1000) feePercent) 24 = ''3.000000000000000000000000''"
  by (simp add: feePercent_def str_eval num_eval)

lemma out_1000:
  "js_mul (js_mul (JFin False 1000) (js_sub (js_lit 1 0) feePercent)) (js_sub (js_lit 1 0) (js_lit 1 (- 2)))
   = JFin False (4341003847854981 / 4398046511104)"
  by (simp add: feePercent_def num_eval)

lemma show_out_1000:
  "toFixed (JFin False (4341003847854981 / 4398046511104)) 6 = ''987.030000''"
  "toFixed (JFin False (4341003847854981 / 4398046511104)) 2 = ''987.03''"
  by (simp_all add: str_eval num_eval)

lemma split_samples:
  "split_colon ''near:native'' = [''near'', ''native'']"
  "split_colon ''near:usdc.near'' = [''near'', ''usdc.near'']"
  "split_colon ''ethereum:usdc.eth'' = [''ethereum'', ''usdc.eth'']"
  "split_colon ''invalid-format'' = [''invalid-format'']"
  by simp_all

lemma validate_sample:
  "validateQuoteRequest sample_request = Inr ()"
  "validateQuoteRequest zero_slippage_request = Inr ()"
  "validateQuoteRequest dry_request = Inr ()"
  "validateQuoteRequest bridge_request = Inr ()"
  "validateQuoteRequest malformed_request = Inr ()"
  by (simp_all add: validateQuoteRequest_def sample_request_def zero_slippage_request_def
        dry_request_def bridge_request_def malformed_request_def parse_1000 js_lit_0 signed_def)

lemma calculate_sample: "calculateQuote sample_request sample_env = Inr sample_quote"
  by (simp add: Let_def sim_eval sample_request_def sample_env_def sample_quote_def split_samples
        nth_opt_def template_def parse_1000 fee_1000[unfolded feePercent_def]
        out_1000[unfolded feePercent_def] show_out_1000)

lemma calculate_bridge: "calculateQuote bridge_request sample_env = Inr bridge_quote"
  by (simp add: Let_def sim_eval bridge_request_def sample_request_def sample_env_def bridge_quote_def
        sample_quote_def split_samples
        nth_opt_def template_def parse_1000 fee_1000[unfolded feePercent_def]
        out_1000[unfolded feePercent_def] show_out_1000)

lemma locals_ignore_slippage [simp]:
  "originChain (request\<lparr>slippageTolerance := t\<rparr>) = originChain request"
  "originToken (request\<lparr>slippageTolerance := t\<rparr>) = originToken request"
  "destChain (request\<lparr>slippageTolerance := t\<rparr>) = destChain request"
  "destToken (request\<lparr>slippageTolerance := t\<rparr>) = destToken request"
  "amountInNum (request\<lparr>slippageTolerance := t\<rparr>) = amountInNum request"
  "amountOutNum (request\<lparr>slippageTolerance := t\<rparr>) = amountOutNum request"
  "isCrossChain (request\<lparr>slippageTolerance := t\<rparr>) = isCrossChain request"
  by (simp_all add: originChain_def originToken_def destChain_def destToken_def amountInNum_def
        amountOutNum_def isCrossChain_def)

lemma slippage_zero:
  assumes "slippageTolerance request = Some (JFin sg 0)"
  shows "slippage request = js_lit 1 (- 2)"
    and "amountOutWithSlippage (request\<lparr>slippageTolerance := None\<rparr>) = amountOutWithSlippage request"
  using assms by (simp_all add: slippage_def amountOutWithSlippage_def)

lemma calculateQuote_zero_slippage:
  assumes "slippageTolerance request = Some (JFin sg 0)"
  shows "calculateQuote request env = calculateQuote (request\<lparr>slippageTolerance := None\<rparr>) env"
  unfolding calculateQuote_def Let_def
  by (simp add: slippage_zero(2)[OF assms] split: sum.splits)

lemma validate_zero_slippage:
  "validateQuoteRequest (request\<lparr>slippageTolerance := t\<rparr>) = validateQuoteRequest request"
  by (simp add: validateQuoteRequest_def)

lemma calculateQuote_ignores_dry:
  "calculateQuote (request\<lparr>dry := d\<rparr>) env = calculateQuote request env"
  unfolding calculateQuote_def Let_def originChain_def originToken_def destChain_def destToken_def
    amountInNum_def amountOutNum_def isCrossChain_def amountOutWithSlippage_def slippage_def
  by (simp split: sum.splits)

lemma calculate_dry: "calculateQuote dry_request sample_env = Inr sample_quote"
  unfolding dry_request_def calculateQuote_ignores_dry by (rule calculate_sample)

lemma requestQuote_pending:
  assumes "validateQuoteRequest request = Inr ()" and "calculateQuote request sample_env = Inr q"
  shows "requestQuote (OneClickSimulator True) request sample_env =
           (Inr \<lparr>quoteId = ''q1'', timestamp = 1001, quoteRequest = request, quote = q\<rparr>,
            pending_state request q)"
  using requestQuote_accepted[OF assms, of "OneClickSimulator True"]
  by (simp add: sample_env_def OneClickSimulator_def pending_state_def stored_def)

lemma reachable_pending:
  assumes "validateQuoteRequest request = Inr ()" and "calculateQuote request sample_env = Inr q"
  shows "reachable (pending_state request q)"
proof -
  have "randomUUID sample_env \<notin> dom (swaps (OneClickSimulator True))"
    by (simp add: OneClickSimulator_def)
  then have "step (OneClickSimulator True)
               (snd (requestQuote (OneClickSimulator True) request sample_env))"
    by (rule step.request)
  then have "step (OneClickSimulator True) (pending_state request q)"
    by (simp add: requestQuote_pending[OF assms])
  with reachable.initial show ?thesis by (rule reachable.after)
qed

lemma fire_pending:
  assumes "dry request \<noteq> Some True"
  shows "simulateExecution_start 2000 ''q1''
           ((pending_state request q)\<lparr>timers := remove1 ''q1'' (timers (pending_state request q))\<rparr>)
         = processing_state request q"
  using assms by (simp add: simulateExecution_start_def pending_state_def processing_state_def)

lemma step_pending_processing:
  assumes "dry request \<noteq> Some True"
  shows "step (pending_state request q) (processing_state request q)"
proof -
  have "''q1'' \<in> set (timers (pending_state request q))"
    using assms by (simp add: pending_state_def)
  from step.fire[OF this, of 2000] show ?thesis by (simp add: fire_pending[OF assms])
qed

lemma reachable_processing:
  assumes "validateQuoteRequest request = Inr ()" and "calculateQuote request sample_env = Inr q"
    and "dry request \<noteq> Some True"
  shows "reachable (processing_state request q)"
  using reachable_pending[OF assms(1,2)] step_pending_processing[OF assms(3)]
  by (rule reachable.after)

lemma not_dry:
  "dry sample_request \<noteq> Some True" "dry bridge_request \<noteq> Some True"
  by (simp_all add: sample_request_def bridge_request_def)

lemma start_running:
  assumes "reachable this" and "qid \<in> set (timers this)" and "swaps this qid = Some swap"
  shows "reachable (simulateExecution_start now qid (this\<lparr>timers := remove1 qid (timers this)\<rparr>))"
    and "qid \<in> set (running (simulateExecution_start now qid (this\<lparr>timers := remove1 qid (timers this)\<rparr>)))"
    and "swaps (simulateExecution_start now qid (this\<lparr>timers := remove1 qid (timers this)\<rparr>)) qid
           = Some (swap\<lparr>status := PROCESSING, updatedAt := now\<rparr>)"
    and "nearExec (simulateExecution_start now qid (this\<lparr>timers := remove1 qid (timers this)\<rparr>))
           = nearExec this"
proof -
  show "reachable (simulateExecution_start now qid (this\<lparr>timers := remove1 qid (timers this)\<rparr>))"
    using assms(1) step.fire[OF assms(2)] by (rule reachable.after)
qed (use assms(3) in \<open>simp_all add: simulateExecution_start_def\<close>)

lemma run_pending:
  assumes "dry request \<noteq> Some True"
  shows "simulateExecution env ''q1'' ((pending_state request q)\<lparr>timers := []\<rparr>) =
         simulateExecution_finish env ''q1''
           ((processing_state request q)
              \<lparr>swaps := [''q1'' \<mapsto> (stored request q)\<lparr>status := PROCESSING,
                                                       updatedAt := processingNow env\<rparr>]\<rparr>)"
  by (simp add: simulateExecution_def simulateExecution_start_def pending_state_def
      processing_state_def)

lemma dest_samples:
  "destChain sample_request = Some ''near''"
  "destChain bridge_request = Some ''ethereum''"
  by (simp_all add: destChain_def bridge_request_def sample_request_def split_samples nth_opt_def)

lemma transfer_sample_undefined:
  "transfer True nullish_exec sample_request =
     Inl (Error ''Cannot read properties of undefined (reading 'message')'')"
  by (simp add: transfer_def nullish_exec_def sample_exec_def sample_request_def startsWith_def
      read_message_def)

lemma execute_bridge:
  assumes "simulateDestinationTx env = Inl e"
  shows "execute True env
             ((stored bridge_request bridge_quote)\<lparr>status := PROCESSING, updatedAt := t\<rparr>) = Inl e"
proof -
  have "destChain bridge_request \<noteq> Some ''near''" by (simp add: dest_samples)
  then show ?thesis
    using assms transfer_simulated[of bridge_request True env]
    by (simp add: execute_def stored_def)
qed



lemma parse_invalid:
  "parseFloat ''0'' = JFin False 0" "parseFloat ''-5'' = JFin True 5" "parseFloat ''abc'' = JNaN"
  by (simp_all add: str_eval num_eval)

lemma invalid_amount_rejected:
  assumes "amount request \<in> {''0'', ''-5'', ''''}"
    and "originAsset request \<noteq> []" and "destinationAsset request \<noteq> []"
  shows "requestQuote this request env = (Inl (Error ''Valid amount required''), this)"
proof -
  have "amount request = [] \<or> js_le (parseFloat (amount request)) (js_lit 0 0)"
    using assms(1) unfolding js_lit_0 by (auto simp: parse_invalid signed_def)
  then have "validateQuoteRequest request = Inl (Error ''Valid amount required'')"
    using assms(2,3) by (simp add: validateQuoteRequest_def)
  then show ?thesis by (rule requestQuote_rejected)
qed

lemma empty_asset_rejected:
  assumes "originAsset request = [] \<or> destinationAsset request = []"
  shows "requestQuote this request env =
           (Inl (Error ''Origin and destination assets required''), this)"
  using assms by (auto simp: requestQuote_def validateQuoteRequest_def)

lemma fee_1000_default: "toFixed (js_mul (JFin False 1000) feePercent) 18 = ''3.000000000000000000''"
  by (simp add: feePercent_def str_eval num_eval)

lemma step_issues:
  assumes "step this this'" and "swaps this qid = None" and "swaps this' qid = Some swap'"
  shows "\<exists>request env response.
           requestQuote this request env = (Inr response, this') \<and> quoteId response = qid"
  using assms
proof (induction rule: step.induct)
  case (request env this request)
  show ?case
  proof (cases rule: requestQuote_cases[of this request env])
    case (rejected e)
    then show ?thesis using request by simp
  next
    case (accepted q)
    have "qid = randomUUID env"
      using request(2,3) accepted(2) by (auto split: if_splits)
    then show ?thesis
      using accepted(2) by (intro exI[of _ request] exI[of _ env]) auto
  qed
next
  case (fire q this now)
  then show ?case by (auto simp: simulateExecution_start_def split: option.splits if_splits)
next
  case (settle q this env)
  then show ?case by (auto simp: simulateExecution_finish_def split: option.splits if_splits)
next
  case (poll this q)
  then show ?case by (simp add: getSwapStatus_def split: option.splits)
qed





lemma show_nat_nonempty: "show_nat n \<noteq> []"
  by (subst show_nat.simps) simp


















lemma map_filter_Cons_None: "f x = None \<Longrightarrow> List.map_filter f (x # xs) = List.map_filter f xs"
  by (simp add: List.map_filter_simps)
















lemma parse_tiny: "parseFloat ''0.0000006'' = JFin False (2833419889721787 / 4722366482869645213696)"
  by (simp add: str_eval) (simp add: num_eval)

lemma parse_unit: "parseFloat ''0.000001'' = JFin False (4722366482869645 / 4722366482869645213696)"
  by (simp add: str_eval) (simp add: num_eval)


lemma out_tiny:
  "js_mul (JFin False (2833419889721787 / 4722366482869645213696)) (js_sub (js_lit 1 0) feePercent) =
     JFin False (5649839260105243 / 9444732965739290427392)"
  "js_mul (JFin False (5649839260105243 / 9444732965739290427392))
          (js_sub (js_lit 1 0) (js_lit 1 (- 2))) =
     JFin False (5593340867504191 / 9444732965739290427392)"
  by (simp_all add: feePercent_def num_eval)



lemma tiny_exceeds:
  "amountOutNum tiny_request = JFin False (5649839260105243 / 9444732965739290427392)"
  "\<not> js_le (parseFloat ''0.000001'') (amountOutNum tiny_request)"
  by (simp_all add: amountOutNum_def amountInNum_def tiny_request_def sample_request_def
      parse_tiny parse_unit out_tiny signed_def)

lemma out_negative:
  "js_mul (JFin False 997) (js_sub (js_lit 1 0) (JFin True (1 / 2))) = JFin False (2991 / 2)"
  "js_mul (JFin False 1000) (js_sub (js_lit 1 0) feePercent) = JFin False 997"
  by (simp_all add: feePercent_def num_eval)



lemma negative_exceeds:
  "slippage negative_slippage_request = JFin True (1 / 2)"
  "amountOutWithSlippage negative_slippage_request = JFin False (2991 / 2)"
  "amountOutNum negative_slippage_request = JFin False 997"
  "\<not> js_le (amountOutWithSlippage negative_slippage_request)
            (amountOutNum negative_slippage_request)"
  by (simp_all add: amountOutWithSlippage_def amountOutNum_def amountInNum_def slippage_def
      negative_slippage_request_def sample_request_def parse_1000 out_negative signed_def)


















section \<open>The claims\<close>




text \<open>
  Claim C2 says that the amounts \<open>0\<close>, \<open>-5\<close>, \<open>abc\<close> and the empty string are
  rejected. The first, second and fourth are (\<open>invalid_amount_rejected\<close>). For
  \<open>abc\<close>, \<open>parseFloat\<close> is \<open>NaN\<close> and \<open>NaN <= 0\<close> is false: the request passes
  validation, \<open>requestQuote\<close> returns a quote whose amounts are \<open>NaN\<close>, and a swap is
  stored under the quote id.
\<close>

theorem non_numeric_amount_accepted:
  "validateQuoteRequest non_numeric_request = Inr () \<and>
   fst (requestQuote (OneClickSimulator True) non_numeric_request sample_env) =
     Inr \<lparr>quoteId = ''q1'', timestamp = 1001, quoteRequest = non_numeric_request,
           quote = sample_quote\<lparr>Quote.amountIn := ''abc'', Quote.amountOut := ''NaN'',
                                 amountOutFormatted := ''NaN USDC'', fee := ''NaN''\<rparr>\<rparr> \<and>
   swaps (snd (requestQuote (OneClickSimulator True) non_numeric_request sample_env)) ''q1'' =
     Some (stored non_numeric_request
             (sample_quote\<lparr>Quote.amountIn := ''abc'', Quote.amountOut := ''NaN'',
                            amountOutFormatted := ''NaN USDC'', fee := ''NaN''\<rparr>))"
proof -
  have v: "validateQuoteRequest non_numeric_request = Inr ()"
    by (simp add: validateQuoteRequest_def non_numeric_request_def sample_request_def
          parse_invalid)
  have c: "calculateQuote non_numeric_request sample_env =
      Inr (sample_quote\<lparr>Quote.amountIn := ''abc'', Quote.amountOut := ''NaN'',
                         amountOutFormatted := ''NaN USDC'', fee := ''NaN''\<rparr>)"
    by (simp add: Let_def sim_eval non_numeric_request_def sample_request_def sample_env_def
          sample_quote_def split_samples nth_opt_def template_def parse_invalid toFixed_def)
  show ?thesis
    using v requestQuote_pending[OF v c] by (simp add: pending_state_def)
qed

text \<open>
  Claim C3 says that a request whose origin or destination asset does not split at its
  colons into exactly two non-empty parts fails with a validation error.
  \<open>validateQuoteRequest\<close> tests the two assets for emptiness only
  (\<open>empty_asset_rejected\<close>). The origin asset \<open>invalid-format\<close> has no colon and
  passes validation: \<open>requestQuote\<close> returns a quote whose origin chain is the whole
  text and whose origin token is \<open>undefined\<close> (a deposit address derived for that
  chain, the default of 18 decimals for the fee, a route from \<open>undefined\<close> through
  \<open>undefined (bridged)\<close>), stores the swap and sets its timer.
\<close>

theorem malformed_asset_accepted:
  "\<not> two_nonempty_parts (originAsset malformed_request) \<and>
   split_colon (originAsset malformed_request) = [''invalid-format''] \<and>
   validateQuoteRequest malformed_request = Inr () \<and>
   requestQuote (OneClickSimulator True) malformed_request sample_env =
     (Inr \<lparr>quoteId = ''q1'', timestamp = 1001, quoteRequest = malformed_request,
           quote =
             \<lparr>depositAddress = ''0x1234'', Quote.amountIn = ''1000'',
              Quote.amountOut = ''987.030000'', amountOutFormatted = ''987.03 USDC'',
              Quote.deadline = 301000, timeEstimate = 45, fee = ''3.000000000000000000'',
              route =
                \<lparr>steps = [\<lparr>step_from = None, step_to = Some ''undefined (bridged)'',
                            protocol = ''rainbow-bridge''\<rparr>,
                           \<lparr>step_from = Some ''undefined (bridged)'', step_to = Some ''USDC'',
                            protocol = ''uniswap-v3''\<rparr>]\<rparr>\<rparr>\<rparr>,
      \<lparr>swaps = [''q1'' \<mapsto>
         \<lparr>quoteResponse =
            \<lparr>quoteId = ''q1'', timestamp = 1001, quoteRequest = malformed_request,
             quote =
               \<lparr>depositAddress = ''0x1234'', Quote.amountIn = ''1000'',
                Quote.amountOut = ''987.030000'', amountOutFormatted = ''987.03 USDC'',
                Quote.deadline = 301000, timeEstimate = 45, fee = ''3.000000000000000000'',
                route =
                  \<lparr>steps = [\<lparr>step_from = None, step_to = Some ''undefined (bridged)'',
                              protocol = ''rainbow-bridge''\<rparr>,
                             \<lparr>step_from = Some ''undefined (bridged)'', step_to = Some ''USDC'',
                              protocol = ''uniswap-v3''\<rparr>]\<rparr>\<rparr>\<rparr>,
          status = PENDING_DEPOSIT, createdAt = 1002, updatedAt = 1003,
          swapDetails = None, error = None\<rparr>],
       nearExec = True, timers = [''q1''], running = []\<rparr>)"
proof -
  have a: "\<not> two_nonempty_parts (originAsset malformed_request)"
    "split_colon (originAsset malformed_request) = [''invalid-format'']"
    by (simp_all add: two_nonempty_parts_def malformed_request_def sample_request_def split_samples)
  have c: "calculateQuote malformed_request sample_env =
      Inr \<lparr>depositAddress = ''0x1234'', Quote.amountIn = ''1000'',
           Quote.amountOut = ''987.030000'', amountOutFormatted = ''987.03 USDC'',
           Quote.deadline = 301000, timeEstimate = 45, fee = ''3.000000000000000000'',
           route =
             \<lparr>steps = [\<lparr>step_from = None, step_to = Some ''undefined (bridged)'',
                         protocol = ''rainbow-bridge''\<rparr>,
                        \<lparr>step_from = Some ''undefined (bridged)'', step_to = Some ''USDC'',
                         protocol = ''uniswap-v3''\<rparr>]\<rparr>\<rparr>"
    by (simp add: Let_def sim_eval malformed_request_def sample_request_def sample_env_def
        split_samples nth_opt_def template_def parse_1000 fee_1000_default[unfolded feePercent_def]
        out_1000[unfolded feePercent_def] show_out_1000)
  have d: "dry malformed_request \<noteq> Some True"
    by (simp add: malformed_request_def sample_request_def)
  show ?thesis
    using a validate_sample(5) requestQuote_pending[OF validate_sample(5) c] d
    by (simp add: pending_state_def stored_def)
qed

text \<open>
  Claim C4 says that the swap ends with status \<open>SUCCESS\<close> whenever
  \<open>sendNearTransfer\<close> rejects. It does when the adapter rejects with a value other than
  \<open>undefined\<close> and \<open>null\<close> (\<open>finish_transfer_failure\<close>). The \<open>catch\<close> of the
  transfer step reads \<open>error.message\<close> before it makes the mock hash: when the adapter
  rejects with \<open>undefined\<close>, that read throws a \<open>TypeError\<close>, which the outer
  \<open>catch\<close> records. The sample request is accepted with its timer set, its
  destination chain is \<open>near\<close> and the simulator has a \<open>nearExec\<close> adapter; its
  execution ends with status \<open>FAILED\<close>, the message of the \<open>TypeError\<close> as the error,
  and no swap details.
\<close>

theorem transfer_rejection_undefined_fails_swap:
  "requestQuote (OneClickSimulator True) sample_request sample_env =
     (Inr \<lparr>quoteId = ''q1'', timestamp = 1001, quoteRequest = sample_request,
           quote = sample_quote\<rparr>,
      pending_state sample_request sample_quote) \<and>
   timers (pending_state sample_request sample_quote) = [''q1''] \<and>
   nearExec (pending_state sample_request sample_quote) \<and>
   destChain sample_request = Some ''near'' \<and>
   sendNearTransfer nullish_exec = Inl Undefined \<and>
   simulateExecution nullish_exec ''q1''
     ((pending_state sample_request sample_quote)\<lparr>timers := []\<rparr>) =
     \<lparr>swaps = [''q1'' \<mapsto>
        (stored sample_request sample_quote)
          \<lparr>status := FAILED, updatedAt := 5000,
           error := Some ''Cannot read properties of undefined (reading 'message')''\<rparr>],
      nearExec = True, timers = [], running = []\<rparr> \<and>
   swapDetails (stored sample_request sample_quote) = None"
proof -
  have a: "requestQuote (OneClickSimulator True) sample_request sample_env =
     (Inr \<lparr>quoteId = ''q1'', timestamp = 1001, quoteRequest = sample_request,
           quote = sample_quote\<rparr>,
      pending_state sample_request sample_quote)"
    by (rule requestQuote_pending[OF validate_sample(1) calculate_sample])
  have b: "timers (pending_state sample_request sample_quote) = [''q1'']"
    "nearExec (pending_state sample_request sample_quote)"
    using not_dry(1) by (simp_all add: pending_state_def)
  have c: "sendNearTransfer nullish_exec = Inl Undefined"
    by (simp add: nullish_exec_def)
  have e: "execute True nullish_exec
             ((stored sample_request sample_quote)\<lparr>status := PROCESSING, updatedAt := 2000\<rparr>) =
           Inl (Error ''Cannot read properties of undefined (reading 'message')'')"
    by (simp add: execute_def stored_def transfer_sample_undefined)
  have f: "processingNow nullish_exec = 2000" "finishedNow nullish_exec = 5000"
    by (simp_all add: nullish_exec_def sample_exec_def)
  have d: "simulateExecution nullish_exec ''q1''
     ((pending_state sample_request sample_quote)\<lparr>timers := []\<rparr>) =
     \<lparr>swaps = [''q1'' \<mapsto>
        (stored sample_request sample_quote)
          \<lparr>status := FAILED, updatedAt := 5000,
           error := Some ''Cannot read properties of undefined (reading 'message')''\<rparr>],
      nearExec = True, timers = [], running = []\<rparr>"
    unfolding run_pending[OF not_dry(1)] f
    by (simp add: simulateExecution_finish_def processing_state_def e f read_message_def)
  have g: "swapDetails (stored sample_request sample_quote) = None"
    by (simp add: stored_def)
  show ?thesis using a b c d g dest_samples(1) by simp
qed

text \<open>
  Claim C5 says that the swap ends with status \<open>FAILED\<close> and an error message
  whenever \<open>simulateDestinationTx\<close> rejects. It does when the adapter rejects with an
  \<open>Error\<close>, whose message becomes the error (\<open>finish_destination_failure\<close>). The
  outer \<open>catch\<close> reads \<open>error.message\<close> before it writes the status: when the adapter
  rejects with \<open>undefined\<close>, that read throws, the promise of \<open>simulateExecution\<close>
  rejects, and the swap of the request to \<open>ethereum\<close> stays \<open>PROCESSING\<close> with no
  error, no timer and no execution left to end it. When the adapter rejects with a value
  that has no \<open>message\<close>, the swap ends \<open>FAILED\<close> with \<open>error\<close> undefined; when it
  rejects with an \<open>Error\<close> whose message is empty, with the empty string.
\<close>

theorem destination_rejection_undefined_stays_processing:
  "requestQuote (OneClickSimulator True) bridge_request sample_env =
     (Inr \<lparr>quoteId = ''q1'', timestamp = 1001, quoteRequest = bridge_request,
           quote = bridge_quote\<rparr>,
      pending_state bridge_request bridge_quote) \<and>
   timers (pending_state bridge_request bridge_quote) = [''q1''] \<and>
   destChain bridge_request = Some ''ethereum'' \<and>
   simulateDestinationTx nullish_exec = Inl Undefined \<and>
   simulateExecution nullish_exec ''q1''
     ((pending_state bridge_request bridge_quote)\<lparr>timers := []\<rparr>) =
     \<lparr>swaps = [''q1'' \<mapsto>
        (stored bridge_request bridge_quote)\<lparr>status := PROCESSING, updatedAt := 2000\<rparr>],
      nearExec = True, timers = [], running = []\<rparr> \<and>
   error (stored bridge_request bridge_quote) = None \<and>
   simulateExecution (sample_exec\<lparr>simulateDestinationTx := Inl Other\<rparr>) ''q1''
     ((pending_state bridge_request bridge_quote)\<lparr>timers := []\<rparr>) =
     \<lparr>swaps = [''q1'' \<mapsto>
        (stored bridge_request bridge_quote)
          \<lparr>status := FAILED, updatedAt := 5000, error := None\<rparr>],
      nearExec = True, timers = [], running = []\<rparr> \<and>
   simulateExecution (sample_exec\<lparr>simulateDestinationTx := Inl (Error [])\<rparr>) ''q1''
     ((pending_state bridge_request bridge_quote)\<lparr>timers := []\<rparr>) =
     \<lparr>swaps = [''q1'' \<mapsto>
        (stored bridge_request bridge_quote)
          \<lparr>status := FAILED, updatedAt := 5000, error := Some []\<rparr>],
      nearExec = True, timers = [], running = []\<rparr>"
proof -
  have a: "requestQuote (OneClickSimulator True) bridge_request sample_env =
     (Inr \<lparr>quoteId = ''q1'', timestamp = 1001, quoteRequest = bridge_request,
           quote = bridge_quote\<rparr>,
      pending_state bridge_request bridge_quote)"
    by (rule requestQuote_pending[OF validate_sample(4) calculate_bridge])
  have b: "timers (pending_state bridge_request bridge_quote) = [''q1'']"
    using not_dry(2) by (simp add: pending_state_def)
  have c: "simulateDestinationTx nullish_exec = Inl Undefined"
    by (simp add: nullish_exec_def)
  have f: "processingNow nullish_exec = 2000"
    by (simp add: nullish_exec_def sample_exec_def)
  have d: "simulateExecution nullish_exec ''q1''
     ((pending_state bridge_request bridge_quote)\<lparr>timers := []\<rparr>) =
     \<lparr>swaps = [''q1'' \<mapsto>
        (stored bridge_request bridge_quote)\<lparr>status := PROCESSING, updatedAt := 2000\<rparr>],
      nearExec = True, timers = [], running = []\<rparr>"
    unfolding run_pending[OF not_dry(2)] f
    by (simp add: simulateExecution_finish_def processing_state_def execute_bridge[OF c]
        read_message_def)
  have g: "error (stored bridge_request bridge_quote) = None"
    by (simp add: stored_def)
  have h: "simulateExecution (sample_exec\<lparr>simulateDestinationTx := Inl e\<rparr>) ''q1''
     ((pending_state bridge_request bridge_quote)\<lparr>timers := []\<rparr>) =
     \<lparr>swaps = [''q1'' \<mapsto>
        (case read_message e of
           Inl typeError \<Rightarrow>
             (stored bridge_request bridge_quote)\<lparr>status := PROCESSING, updatedAt := 2000\<rparr>
         | Inr msg \<Rightarrow>
             (stored bridge_request bridge_quote)
               \<lparr>status := FAILED, updatedAt := 5000, error := msg\<rparr>)],
      nearExec = True, timers = [], running = []\<rparr>" for e
  proof -
    define env where "env = sample_exec\<lparr>simulateDestinationTx := Inl e\<rparr>"
    have env: "simulateDestinationTx env = Inl e" "processingNow env = 2000"
      "finishedNow env = 5000"
      by (simp_all add: env_def sample_exec_def)
    note x = execute_bridge[OF env(1)]
    show ?thesis
      unfolding run_pending[OF not_dry(2)] env_def[symmetric] env(2)
      by (cases "read_message e")
        (simp_all add: simulateExecution_finish_def processing_state_def x env)
  qed
  show ?thesis using a b c d g dest_samples(2) h[of Other] h[of "Error []"]
    by (simp add: read_message_def)
qed

text \<open>
  Claim C6. When \<open>requestQuote\<close> returns a quote: if the origin chain is the
  destination chain, the route has the one step \<open>ref-finance\<close> and the time estimate
  is 7; if the chains differ, the route has the two steps \<open>rainbow-bridge\<close> then
  \<open>uniswap-v3\<close> and the time estimate is 45.
\<close>

theorem route_and_timeEstimate:
  assumes "fst (requestQuote this request env) = Inr response"
  shows "(originChain request = destChain request \<longrightarrow>
            map protocol (steps (route (quote response))) = [''ref-finance''] \<and>
            timeEstimate (quote response) = 7) \<and>
         (originChain request \<noteq> destChain request \<longrightarrow>
            map protocol (steps (route (quote response))) = [''rainbow-bridge'', ''uniswap-v3''] \<and>
            timeEstimate (quote response) = 45)"
proof (cases rule: requestQuote_cases[of this request env])
  case (rejected e)
  then show ?thesis using assms by simp
next
  case (accepted q)
  have r: "quote response = q" using accepted(2) assms by auto
  have "(originChain request = destChain request \<longrightarrow>
            map protocol (steps (route q)) = [''ref-finance''] \<and> timeEstimate q = 7) \<and>
         (originChain request \<noteq> destChain request \<longrightarrow>
            map protocol (steps (route q)) = [''rainbow-bridge'', ''uniswap-v3''] \<and>
            timeEstimate q = 45)"
    using accepted(1) unfolding calculateQuote_def Let_def isCrossChain_def
    by (auto split: sum.splits)
  then show ?thesis by (simp add: r)
qed

theorem route_and_timeEstimate_witness:
  "fst (requestQuote (OneClickSimulator True) sample_request sample_env) =
     Inr \<lparr>quoteId = ''q1'', timestamp = 1001, quoteRequest = sample_request, quote = sample_quote\<rparr> \<and>
   originChain sample_request = destChain sample_request \<and>
   map protocol (steps (route sample_quote)) = [''ref-finance''] \<and>
   timeEstimate sample_quote = 7 \<and>
   fst (requestQuote (OneClickSimulator True) bridge_request sample_env) =
     Inr \<lparr>quoteId = ''q1'', timestamp = 1001, quoteRequest = bridge_request, quote = bridge_quote\<rparr> \<and>
   originChain bridge_request \<noteq> destChain bridge_request \<and>
   map protocol (steps (route bridge_quote)) = [''rainbow-bridge'', ''uniswap-v3''] \<and>
   timeEstimate bridge_quote = 45"
proof -
  have a: "fst (requestQuote (OneClickSimulator True) sample_request sample_env) =
     Inr \<lparr>quoteId = ''q1'', timestamp = 1001, quoteRequest = sample_request, quote = sample_quote\<rparr>"
    by (simp add: requestQuote_pending[OF validate_sample(1) calculate_sample])
  have b: "fst (requestQuote (OneClickSimulator True) bridge_request sample_env) =
     Inr \<lparr>quoteId = ''q1'', timestamp = 1001, quoteRequest = bridge_request, quote = bridge_quote\<rparr>"
    by (simp add: requestQuote_pending[OF validate_sample(4) calculate_bridge])
  have c: "originChain sample_request = destChain sample_request"
          "originChain bridge_request \<noteq> destChain bridge_request"
    by (simp_all add: originChain_def destChain_def sample_request_def bridge_request_def
          split_samples nth_opt_def)
  show ?thesis
    using route_and_timeEstimate[OF a] route_and_timeEstimate[OF b] a b c by simp
qed

text \<open>
  Claim C7. In every state that the simulator can reach, a stored swap whose request
  has \<open>dry: true\<close> has status \<open>PENDING_DEPOSIT\<close>, no timer is set for it and no
  execution of it is running.
\<close>

theorem dry_stays_pending:
  assumes "reachable this" and "swaps this qid = Some swap"
    and "dry (quoteRequest (quoteResponse swap)) = Some True"
  shows "status swap = PENDING_DEPOSIT \<and> qid \<notin> set (timers this) \<and> qid \<notin> set (running this)"
proof -
  have "swap_ok this qid swap"
    using reachable_invariant[OF assms(1)] assms(2) by (simp add: invariant_def)
  then show ?thesis
    using assms(3) unfolding swap_ok_def is_dry_def by (cases "status swap") simp_all
qed

theorem dry_stays_pending_witness:
  "reachable (pending_state dry_request sample_quote) \<and>
   swaps (pending_state dry_request sample_quote) ''q1'' = Some (stored dry_request sample_quote) \<and>
   dry (quoteRequest (quoteResponse (stored dry_request sample_quote))) = Some True \<and>
   status (stored dry_request sample_quote) = PENDING_DEPOSIT \<and>
   ''q1'' \<notin> set (timers (pending_state dry_request sample_quote)) \<and>
   ''q1'' \<notin> set (running (pending_state dry_request sample_quote))"
proof -
  have r: "reachable (pending_state dry_request sample_quote)"
    by (rule reachable_pending[OF validate_sample(3) calculate_dry])
  have s: "swaps (pending_state dry_request sample_quote) ''q1'' = Some (stored dry_request sample_quote)"
    by (simp add: pending_state_def)
  have d: "dry (quoteRequest (quoteResponse (stored dry_request sample_quote))) = Some True"
    by (simp add: stored_def dry_request_def)
  show ?thesis using dry_stays_pending[OF r s d] r s d by simp
qed

text \<open>
  Claim C8. In every state that the simulator can reach, the status of every stored
  swap is \<open>PENDING_DEPOSIT\<close>, \<open>PROCESSING\<close>, \<open>SUCCESS\<close> or \<open>FAILED\<close>, never
  \<open>INCOMPLETE_DEPOSIT\<close> or \<open>REFUNDED\<close>; a step leaves the status of a stored swap as
  it is or moves it from \<open>PENDING_DEPOSIT\<close> to \<open>PROCESSING\<close> or from \<open>PROCESSING\<close>
  to \<open>SUCCESS\<close> or \<open>FAILED\<close>; and a swap that a step creates starts in
  \<open>PENDING_DEPOSIT\<close>.
\<close>

theorem status_lifecycle:
  assumes "reachable this"
  shows "(\<forall>qid swap. swaps this qid = Some swap \<longrightarrow>
            status swap \<in> {PENDING_DEPOSIT, PROCESSING, SUCCESS, FAILED}) \<and>
         (\<forall>this' qid swap. step this this' \<and> swaps this qid = Some swap \<longrightarrow>
            (\<exists>swap'. swaps this' qid = Some swap' \<and>
               (status swap' = status swap \<or> lifecycle (status swap) (status swap')))) \<and>
         (\<forall>this' qid swap'. step this this' \<and> swaps this qid = None \<and>
              swaps this' qid = Some swap' \<longrightarrow> status swap' = PENDING_DEPOSIT)"
proof -
  have inv: "invariant this" by (rule reachable_invariant[OF assms])
  have "status swap \<in> {PENDING_DEPOSIT, PROCESSING, SUCCESS, FAILED}"
    if "swaps this qid = Some swap" for qid swap
  proof -
    have "swap_ok this qid swap" using inv that by (simp add: invariant_def)
    then show ?thesis unfolding swap_ok_def by (cases "status swap") simp_all
  qed
  then show ?thesis using step_status[OF inv] step_created by blast
qed

theorem status_lifecycle_witness:
  "reachable (pending_state sample_request sample_quote) \<and>
   swaps (pending_state sample_request sample_quote) ''q1'' = Some (stored sample_request sample_quote) \<and>
   status (stored sample_request sample_quote) \<in> {PENDING_DEPOSIT, PROCESSING, SUCCESS, FAILED} \<and>
   step (pending_state sample_request sample_quote) (processing_state sample_request sample_quote) \<and>
   (\<exists>swap'. swaps (processing_state sample_request sample_quote) ''q1'' = Some swap' \<and>
      (status swap' = status (stored sample_request sample_quote) \<or>
       lifecycle (status (stored sample_request sample_quote)) (status swap'))) \<and>
   step (OneClickSimulator True) (pending_state sample_request sample_quote) \<and>
   swaps (OneClickSimulator True) ''q1'' = None \<and>
   status (stored sample_request sample_quote) = PENDING_DEPOSIT"
proof -
  have r: "reachable (pending_state sample_request sample_quote)"
    by (rule reachable_pending[OF validate_sample(1) calculate_sample])
  have s: "swaps (pending_state sample_request sample_quote) ''q1'' = Some (stored sample_request sample_quote)"
    by (simp add: pending_state_def)
  have t: "step (pending_state sample_request sample_quote) (processing_state sample_request sample_quote)"
    by (rule step_pending_processing[OF not_dry(1)])
  have "randomUUID sample_env \<notin> dom (swaps (OneClickSimulator True))"
    by (simp add: OneClickSimulator_def)
  then have "step (OneClickSimulator True)
               (snd (requestQuote (OneClickSimulator True) sample_request sample_env))"
    by (rule step.request)
  then have u: "step (OneClickSimulator True) (pending_state sample_request sample_quote)"
    by (simp add: requestQuote_pending[OF validate_sample(1) calculate_sample])
  have n: "swaps (OneClickSimulator True) ''q1'' = None"
    by (simp add: OneClickSimulator_def)
  from status_lifecycle[OF r] s t
  have a: "status (stored sample_request sample_quote) \<in> {PENDING_DEPOSIT, PROCESSING, SUCCESS, FAILED}"
    and b: "\<exists>swap'. swaps (processing_state sample_request sample_quote) ''q1'' = Some swap' \<and>
      (status swap' = status (stored sample_request sample_quote) \<or>
       lifecycle (status (stored sample_request sample_quote)) (status swap'))"
    by blast+
  from status_lifecycle[OF reachable.initial[of True]] u n s
  have c: "status (stored sample_request sample_quote) = PENDING_DEPOSIT" by blast
  show ?thesis using r s t u n a b c by blast
qed

text \<open>
  Claim C9. For a quote id that has no swap in the registry, \<open>getSwapStatus\<close>
  fails with the error \<open>Quote not found\<close> and the simulator, its registry included,
  is the same after the call. These are the ids that no quote was issued for: a step
  stores a swap under a new id only in a call of \<open>requestQuote\<close> that returns a quote
  with that id (\<open>step_issues\<close>).
\<close>

theorem getSwapStatus_unknown:
  assumes "swaps this qid = None"
  shows "getSwapStatus this qid = (Inl (Error (''Quote not found: '' @ qid)), this)"
  using assms by (simp add: getSwapStatus_def)

theorem getSwapStatus_unknown_witness:
  "swaps (pending_state sample_request sample_quote) ''q2'' = None \<and>
   getSwapStatus (pending_state sample_request sample_quote) ''q2'' =
     (Inl (Error ''Quote not found: q2''), pending_state sample_request sample_quote)"
proof -
  have n: "swaps (pending_state sample_request sample_quote) ''q2'' = None"
    by (simp add: pending_state_def)
  show ?thesis using getSwapStatus_unknown[OF n] n by simp
qed

text \<open>
  Claim C10. A request with a slippage tolerance of zero (\<open>+0\<close> or \<open>-0\<close>) is quoted
  with the default of 0.01: \<open>amountOut\<close> is \<open>amountIn * (1 - 0.003) * (1 - 0.01)\<close>
  printed at the decimals of the destination asset, and the quote is the one of the
  same request without a slippage tolerance.
\<close>

theorem zero_slippage_uses_default:
  assumes "slippageTolerance request = Some (JFin sg 0)"
    and "fst (requestQuote this request env) = Inr response"
  shows "Quote.amountOut (quote response) =
           toFixed (js_mul (js_mul (parseFloat (amount request))
                                   (js_sub (js_lit 1 0) (js_lit 3 (- 3))))
                           (js_sub (js_lit 1 0) (js_lit 1 (- 2))))
                   (getDecimals (destChain request) (destToken request)) \<and>
         map_sum id quote (fst (requestQuote this (request\<lparr>slippageTolerance := None\<rparr>) env))
           = Inr (quote response)"
proof (cases rule: requestQuote_cases[of this request env])
  case (rejected e)
  then show ?thesis using assms(2) by simp
next
  case (accepted q)
  have r: "quote response = q" using accepted(2) assms(2) by auto
  have q: "calculateQuote (request\<lparr>slippageTolerance := None\<rparr>) env = Inr q"
    using accepted(1) calculateQuote_zero_slippage[OF assms(1)] by simp
  have v: "validateQuoteRequest (request\<lparr>slippageTolerance := None\<rparr>) = Inr ()"
    using accepted(3) by (simp add: validate_zero_slippage)
  have "Quote.amountOut q =
           toFixed (js_mul (js_mul (parseFloat (amount request))
                                   (js_sub (js_lit 1 0) (js_lit 3 (- 3))))
                           (js_sub (js_lit 1 0) (js_lit 1 (- 2))))
                   (getDecimals (destChain request) (destToken request))"
    using accepted(1)
    by (auto simp: calculateQuote_def Let_def amountOutWithSlippage_def amountOutNum_def
          amountInNum_def slippage_zero(1)[OF assms(1)] feePercent_def split: sum.splits if_splits)
  then show ?thesis
    unfolding r using requestQuote_accepted[OF v q, of this] by simp
qed

theorem zero_slippage_uses_default_witness:
  "slippageTolerance zero_slippage_request = Some (JFin False 0) \<and>
   fst (requestQuote (OneClickSimulator False) zero_slippage_request sample_env)
     = Inr \<lparr>quoteId = ''q1'', timestamp = 1001, quoteRequest = zero_slippage_request,
            quote = sample_quote\<rparr> \<and>
   Quote.amountOut sample_quote =
     toFixed (js_mul (js_mul (parseFloat (amount zero_slippage_request))
                             (js_sub (js_lit 1 0) (js_lit 3 (- 3))))
                     (js_sub (js_lit 1 0) (js_lit 1 (- 2))))
             (getDecimals (destChain zero_slippage_request) (destToken zero_slippage_request)) \<and>
   map_sum id quote
     (fst (requestQuote (OneClickSimulator False)
             (zero_slippage_request\<lparr>slippageTolerance := None\<rparr>) sample_env))
     = Inr sample_quote"
proof -
  have s: "slippageTolerance zero_slippage_request = Some (JFin False 0)"
    by (simp add: zero_slippage_request_def)
  have c: "calculateQuote zero_slippage_request sample_env = Inr sample_quote"
  proof -
    have "zero_slippage_request\<lparr>slippageTolerance := None\<rparr> = sample_request"
      by (simp add: zero_slippage_request_def sample_request_def)
    then show ?thesis
      using calculateQuote_zero_slippage[OF s, of sample_env] calculate_sample by simp
  qed
  have r: "fst (requestQuote (OneClickSimulator False) zero_slippage_request sample_env)
     = Inr \<lparr>quoteId = ''q1'', timestamp = 1001, quoteRequest = zero_slippage_request,
            quote = sample_quote\<rparr>"
    using requestQuote_accepted[OF validate_sample(2) c, of "OneClickSimulator False"]
    by (simp add: sample_env_def)
  show ?thesis
    using zero_slippage_uses_default[OF s r] s r by simp
qed

end
